theory Spec2Isabelle
  imports
    Complex_Main
    "HOL-Library.Sublist"
    "HOL-Library.Word"
    "HOL-Library.Multiset"
    "HOL-Library.Sorting_Algorithms"
    "HOL-Library.List_Lexorder"
    "HOL-Library.Char_ord"
begin

section \<open>JavaScript values used by the compute service\<close>

text \<open>
  The service (\<^verbatim>\<open>services/compute.ts\<close>) is TypeScript on Node. Strings are modelled as
  \<^typ>\<open>string\<close>; a request field that is absent is the empty string, since the code tests
  every string field by truthiness (\<^verbatim>\<open>!x\<close>) before it uses it. Integers held in
  \<^verbatim>\<open>ethers.BigNumber\<close> are unbounded and modelled as \<^typ>\<open>int\<close>; a value of Solidity type
  \<^verbatim>\<open>uint256\<close> returned by a contract is a word of 256 bits, read as an integer by
  \<^const>\<open>uint\<close>. Writes to the console are left out.
\<close>

subsection \<open>Strings\<close>

text \<open>\<^verbatim>\<open>s.includes(t)\<close>: \<open>t\<close> occurs in \<open>s\<close> as a contiguous run.\<close>

fun str_includes :: "string \<Rightarrow> string \<Rightarrow> bool" where
  "str_includes [] t = (t = [])"
| "str_includes (c # cs) t = (prefix t (c # cs) \<or> str_includes cs t)"

text \<open>
  The character class \<^verbatim>\<open>[A-Z0-9]\<close> under the flag \<^verbatim>\<open>i\<close> (and without \<^verbatim>\<open>u\<close>): the ASCII
  letters of both cases and the ASCII digits.
\<close>

definition isAlnum :: "char \<Rightarrow> bool" where
  "isAlnum c =
     (let n = (of_char c :: nat)
      in (48 \<le> n \<and> n \<le> 57) \<or> (65 \<le> n \<and> n \<le> 90) \<or> (97 \<le> n \<and> n \<le> 122))"

text \<open>
  \<^verbatim>\<open>toUpperCase\<close> on one character. The service applies it only to what the strip above
  has left, so only the mapping of ASCII letters matters.
\<close>

definition upperChar :: "char \<Rightarrow> char" where
  "upperChar c =
     (let n = (of_char c :: nat)
      in if 97 \<le> n \<and> n \<le> 122 then char_of (n - 32) else c)"

definition toUpperCase :: "string \<Rightarrow> string" where
  "toUpperCase s = map upperChar s"

text \<open>
  \<^verbatim>\<open>toLowerCase\<close>, used on account addresses (hexadecimal ASCII text) only.
\<close>

definition lowerChar :: "char \<Rightarrow> char" where
  "lowerChar c =
     (let n = (of_char c :: nat)
      in if 65 \<le> n \<and> n \<le> 90 then char_of (n + 32) else c)"

definition toLowerCase :: "string \<Rightarrow> string" where
  "toLowerCase s = map lowerChar s"

text \<open>Decimal digits of a natural number, most significant first.\<close>

fun digits10 :: "nat \<Rightarrow> string" where
  "digits10 n =
     (if n < 10 then [''0123456789'' ! n]
      else digits10 (n div 10) @ [''0123456789'' ! (n mod 10)])"

declare digits10.simps [simp del]

text \<open>
  \<^verbatim>\<open>BigNumber.prototype.toString()\<close>, and the rendering of an integral JavaScript number in
  a template literal: the decimal numeral, with a leading minus sign when negative.
\<close>

definition toString :: "int \<Rightarrow> string" where
  "toString i = (if i < 0 then CHR ''-'' # digits10 (nat (- i)) else digits10 (nat i))"

subsection \<open>Numbers\<close>

text \<open>
  A JavaScript \<^verbatim>\<open>number\<close> is an IEEE 754 double: a finite value (\<open>Num r\<close>, with \<open>Num 0\<close> for
  the positive zero), the negative zero, an infinity or \<^verbatim>\<open>NaN\<close>. The result of an
  arithmetic operation on finite operands is the exact result rounded to the nearest
  double, ties to the even significand.
\<close>

datatype jsnum = Num rat | NegZero | PosInfinity | NegInfinity | NaN

text \<open>\<open>\<lfloor>log\<^sub>2 n\<rfloor>\<close> for \<open>n \<ge> 1\<close>.\<close>

function log2floor :: "int \<Rightarrow> int" where
  "log2floor n = (if n < 2 then 0 else 1 + log2floor (n div 2))"
  by pat_completeness auto
termination
  by (relation "measure nat") auto

declare log2floor.simps [simp del]

definition pow2 :: "int \<Rightarrow> rat" where
  "pow2 e = (if 0 \<le> e then 2 ^ nat e else 1 / 2 ^ nat (- e))"

text \<open>The binary exponent of a positive rational \<open>a\<close>: the \<open>e\<close> with \<open>2^e \<le> a < 2^(e+1)\<close>.\<close>

definition exponent_of :: "rat \<Rightarrow> int" where
  "exponent_of a =
     (if 1 \<le> a then log2floor \<lfloor>a\<rfloor>
      else - (1 + log2floor (\<lceil>1 / a\<rceil> - 1)))"

definition round_half_even :: "rat \<Rightarrow> int" where
  "round_half_even q =
     (let n = \<lfloor>q\<rfloor>; r = q - of_int n
      in if r < 1 / 2 then n else if 1 / 2 < r then n + 1 else if even n then n else n + 1)"

text \<open>
  Rounding to binary64: 53 significant bits, exponents from \<open>-1022\<close> (below which the spacing
  of the subnormal numbers stays \<open>2^-1074\<close>) to \<open>1023\<close> (above which the result is an infinity).
\<close>

definition round_double :: "rat \<Rightarrow> jsnum" where
  "round_double x =
     (if x = 0 then Num 0
      else
        let a = \<bar>x\<bar>;
            e = max (exponent_of a) (- 1022);
            ulp = pow2 (e - 52);
            m = of_int (round_half_even (a / ulp)) * ulp
        in if pow2 1024 \<le> m then (if x < 0 then NegInfinity else PosInfinity)
           else if m = 0 then (if x < 0 then NegZero else Num 0)
           else Num (if x < 0 then - m else m))"

fun num_value :: "jsnum \<Rightarrow> rat" where
  "num_value (Num r) = r"
| "num_value x = 0"

fun is_negative :: "jsnum \<Rightarrow> bool" where
  "is_negative (Num r) = (r < 0)"
| "is_negative NegZero = True"
| "is_negative NegInfinity = True"
| "is_negative x = False"

fun is_zero :: "jsnum \<Rightarrow> bool" where
  "is_zero (Num r) = (r = 0)"
| "is_zero NegZero = True"
| "is_zero x = False"

fun is_infinite :: "jsnum \<Rightarrow> bool" where
  "is_infinite PosInfinity = True"
| "is_infinite NegInfinity = True"
| "is_infinite x = False"

definition signed_zero :: "bool \<Rightarrow> jsnum" where
  "signed_zero negative = (if negative then NegZero else Num 0)"

definition signed_infinity :: "bool \<Rightarrow> jsnum" where
  "signed_infinity negative = (if negative then NegInfinity else PosInfinity)"

text \<open>\<^verbatim>\<open>a * b\<close>.\<close>

definition js_times :: "jsnum \<Rightarrow> jsnum \<Rightarrow> jsnum" where
  "js_times a b =
     (if a = NaN then NaN
      else if b = NaN then NaN
      else if is_infinite a then
        (if is_zero b then NaN else signed_infinity (is_negative a \<noteq> is_negative b))
      else if is_infinite b then
        (if is_zero a then NaN else signed_infinity (is_negative a \<noteq> is_negative b))
      else if is_zero a then signed_zero (is_negative a \<noteq> is_negative b)
      else if is_zero b then signed_zero (is_negative a \<noteq> is_negative b)
      else round_double (num_value a * num_value b))"

text \<open>\<^verbatim>\<open>a / b\<close>: division by zero does not throw.\<close>

definition js_divide :: "jsnum \<Rightarrow> jsnum \<Rightarrow> jsnum" where
  "js_divide a b =
     (if a = NaN then NaN
      else if b = NaN then NaN
      else if is_infinite a then
        (if is_infinite b then NaN else signed_infinity (is_negative a \<noteq> is_negative b))
      else if is_infinite b then signed_zero (is_negative a \<noteq> is_negative b)
      else if is_zero b then
        (if is_zero a then NaN else signed_infinity (is_negative a \<noteq> is_negative b))
      else if is_zero a then signed_zero (is_negative a \<noteq> is_negative b)
      else round_double (num_value a / num_value b))"

text \<open>\<^verbatim>\<open>a - b\<close>.\<close>

definition js_minus :: "jsnum \<Rightarrow> jsnum \<Rightarrow> jsnum" where
  "js_minus a b =
     (if a = NaN then NaN
      else if b = NaN then NaN
      else if is_infinite a then (if b = a then NaN else a)
      else if b = PosInfinity then NegInfinity
      else if b = NegInfinity then PosInfinity
      else if is_zero a then
        (if is_zero b then (if a = NegZero then (if b = NegZero then Num 0 else NegZero) else Num 0)
         else round_double (- num_value b))
      else round_double (num_value a - num_value b))"

text \<open>\<^verbatim>\<open>a >= b\<close> and \<^verbatim>\<open>a > b\<close>: every comparison with \<^verbatim>\<open>NaN\<close> is false.\<close>

definition js_ge :: "jsnum \<Rightarrow> jsnum \<Rightarrow> bool" where
  "js_ge a b =
     (if a = NaN then False
      else if b = NaN then False
      else if a = PosInfinity then True
      else if b = NegInfinity then True
      else if a = NegInfinity then False
      else if b = PosInfinity then False
      else num_value b \<le> num_value a)"

definition js_gt :: "jsnum \<Rightarrow> jsnum \<Rightarrow> bool" where
  "js_gt a b =
     (if a = NaN then False
      else if b = NaN then False
      else if b = PosInfinity then False
      else if a = NegInfinity then False
      else if a = PosInfinity then True
      else if b = NegInfinity then True
      else num_value b < num_value a)"

text \<open>\<^verbatim>\<open>!n\<close> for a number: it is a zero or \<^verbatim>\<open>NaN\<close>.\<close>

definition js_falsy :: "jsnum \<Rightarrow> bool" where
  "js_falsy n = (n = Num 0 \<or> n = NegZero \<or> n = NaN)"

text \<open>
  The number a \<^verbatim>\<open>BigNumber\<close> turns into when the source multiplies or divides it as a
  number: the double nearest to the integer.
\<close>

definition to_number :: "int \<Rightarrow> jsnum" where
  "to_number i = round_double (of_int i)"

section \<open>Proposal status\<close>

text \<open>
  \<^verbatim>\<open>getProposalStatus(votesFor, votesAgainst, threshold, decimals)\<close>, lines 1064 to 1081.
  The three results are the strings the source returns.
\<close>

definition getProposalStatus :: "jsnum \<Rightarrow> jsnum \<Rightarrow> jsnum \<Rightarrow> jsnum \<Rightarrow> string" where
  "getProposalStatus votesFor votesAgainst threshold decimals =
     (let forPercentage = js_divide (js_times votesFor (Num 100)) decimals;
          againstPercentage = js_divide (js_times votesAgainst (Num 100)) decimals;
          thresholdPercentage = js_divide (js_times threshold (Num 100)) decimals
      in if js_ge forPercentage thresholdPercentage then ''Passing''
         else if js_gt againstPercentage (js_minus (Num 100) thresholdPercentage) then ''Failing''
         else ''In Progress'')"

text \<open>
  The classifier as the specification words it, on exact fractions: Passing when
  \<open>votesFor / decimals \<ge> threshold / decimals\<close>, Failing when
  \<open>votesAgainst / decimals > 1 - threshold / decimals\<close>, otherwise In Progress.
\<close>

definition spec_classify :: "rat \<Rightarrow> rat \<Rightarrow> rat \<Rightarrow> rat \<Rightarrow> string" where
  "spec_classify votesFor votesAgainst threshold decimals =
     (if threshold / decimals \<le> votesFor / decimals then ''Passing''
      else if 1 - threshold / decimals < votesAgainst / decimals then ''Failing''
      else ''In Progress'')"

section \<open>Symbol derivation in createListing\<close>

text \<open>
  Lines 126 to 136 of \<^verbatim>\<open>createListing\<close>:
  \<^verbatim>\<open>hardwareName.replace(/[^A-Z0-9]/gi, "").substring(0, 5).toUpperCase() + "NFT"\<close>
  and the same with \<^verbatim>\<open>"TKN"\<close>. The part before the suffix is named here.
\<close>

definition symbolPrefix :: "string \<Rightarrow> string" where
  "symbolPrefix name = toUpperCase (take 5 (filter isAlnum name))"

definition nftSymbol :: "string \<Rightarrow> string" where
  "nftSymbol name = symbolPrefix name @ ''NFT''"

definition tokenSymbol :: "string \<Rightarrow> string" where
  "tokenSymbol name = symbolPrefix name @ ''TKN''"

text \<open>
  The derivation as the specification words it, with its notions spelt out: the
  alphanumeric characters are the 26 letters in both cases and the 10 digits, folding to
  upper case replaces each lower-case letter by the capital at the same place of the
  alphabet; strip, fold, truncate to five characters, append the suffix.
\<close>

definition spec_alphanumeric :: "char \<Rightarrow> bool" where
  "spec_alphanumeric c =
     (c \<in> set (''ABCDEFGHIJKLMNOPQRSTUVWXYZ'' @ ''abcdefghijklmnopqrstuvwxyz''
                 @ ''0123456789''))"

definition spec_upper :: "char \<Rightarrow> char" where
  "spec_upper c =
     (case map_of (zip ''abcdefghijklmnopqrstuvwxyz'' ''ABCDEFGHIJKLMNOPQRSTUVWXYZ'') c of
        None \<Rightarrow> c
      | Some u \<Rightarrow> u)"

definition spec_deriveSymbol :: "string \<Rightarrow> string \<Rightarrow> string" where
  "spec_deriveSymbol name sfx =
     take 5 (map spec_upper (filter spec_alphanumeric name)) @ sfx"

section \<open>Errors and effects\<close>

text \<open>
  What a \<^verbatim>\<open>throw\<close> carries. \<open>HttpError\<close> is an error made by \<^verbatim>\<open>http-errors\<close>
  (\<^verbatim>\<open>createHttpError.BadRequest(msg)\<close> has status 400,
  \<^verbatim>\<open>createHttpError.InternalServerError(msg)\<close> has status 500); it has no \<^verbatim>\<open>code\<close>
  property. \<open>ThrownError\<close> is any other error (thrown by \<^verbatim>\<open>ethers\<close>, by \<^verbatim>\<open>axios\<close> or
  by the runtime) with its \<^verbatim>\<open>code\<close>, if it has one, and its \<^verbatim>\<open>message\<close>.
\<close>

datatype js_error = HttpError nat string | ThrownError "string option" string

fun error_code :: "js_error \<Rightarrow> string option" where
  "error_code (HttpError st msg) = None"
| "error_code (ThrownError c msg) = c"

fun error_message :: "js_error \<Rightarrow> string" where
  "error_message (HttpError st msg) = msg"
| "error_message (ThrownError c msg) = msg"

definition BadRequest :: "string \<Rightarrow> js_error" where
  "BadRequest msg = HttpError 400 msg"

definition InternalServerError :: "string \<Rightarrow> js_error" where
  "InternalServerError msg = HttpError 500 msg"

text \<open>
  \<^verbatim>\<open>ethers.BigNumber.from(n)\<close> for an integral JavaScript number \<open>n\<close>: numbers outside the
  open interval between \<open>-(2^53 - 1)\<close> and \<open>2^53 - 1\<close> are refused with a
  \<^verbatim>\<open>NUMERIC_FAULT\<close>. Of a library error's message the model keeps the reason phrase; the
  library appends a parenthesised list of details to it.
\<close>

definition MAX_SAFE :: int where
  "MAX_SAFE = 2 ^ 53 - 1"

definition BigNumber_from :: "int \<Rightarrow> js_error + int" where
  "BigNumber_from n =
     (if MAX_SAFE \<le> n \<or> n \<le> - MAX_SAFE
      then Inl (ThrownError (Some ''NUMERIC_FAULT'') ''overflow'')
      else Inr n)"

text \<open>
  \<^verbatim>\<open>ethers.BigNumber.from(n)\<close> for any JavaScript number: a number with a fraction is
  refused as well (\<^verbatim>\<open>n % 1\<close> is truthy), an infinity is out of the safe range, and \<^verbatim>\<open>NaN\<close>
  passes both tests and is then refused as the string \<^verbatim>\<open>"NaN"\<close>.
\<close>

fun BigNumber_from_number :: "jsnum \<Rightarrow> js_error + int" where
  "BigNumber_from_number (Num r) =
     (if of_int \<lfloor>r\<rfloor> \<noteq> r then Inl (ThrownError (Some ''NUMERIC_FAULT'') ''underflow'')
      else BigNumber_from \<lfloor>r\<rfloor>)"
| "BigNumber_from_number NegZero = Inr 0"
| "BigNumber_from_number PosInfinity = Inl (ThrownError (Some ''NUMERIC_FAULT'') ''overflow'')"
| "BigNumber_from_number NegInfinity = Inl (ThrownError (Some ''NUMERIC_FAULT'') ''overflow'')"
| "BigNumber_from_number NaN =
     Inl (ThrownError (Some ''INVALID_ARGUMENT'') ''invalid BigNumber string'')"

text \<open>
  \<^verbatim>\<open>a.div(b)\<close> on \<^verbatim>\<open>BigNumber\<close>s, for the non-negative operands met here: a zero divisor
  is a \<^verbatim>\<open>NUMERIC_FAULT\<close>.
\<close>

definition BigNumber_div :: "int \<Rightarrow> int \<Rightarrow> js_error + int" where
  "BigNumber_div a b =
     (if b = 0 then Inl (ThrownError (Some ''NUMERIC_FAULT'') ''division-by-zero'')
      else Inr (a div b))"

subsection \<open>Transactions and encoded calls\<close>

type_synonym address = string

type_synonym uint256 = "256 word"

text \<open>\<^verbatim>\<open>ethers.constants.AddressZero\<close>.\<close>

definition AddressZero :: address where
  "AddressZero = ''0x0000000000000000000000000000000000000000''"

text \<open>
  The result of \<^verbatim>\<open>Interface.encodeFunctionData(name, args)\<close> is kept symbolic: the
  function called and its arguments. ABI encoding is injective, so nothing is lost.
\<close>

datatype call_data =
    Enc_createListing string string string string string int int int
  | Enc_buyTokens int
  | Enc_proposeNewRent int
  | Enc_vote bool
  | Enc_becomeTenant
  | Enc_approve address int
  | Enc_unlockNFT
  | Enc_removeListing address

fun uint256_args :: "call_data \<Rightarrow> int list" where
  "uint256_args (Enc_createListing n s tn ts url tt tp rp) = [tt, tp, rp]"
| "uint256_args (Enc_buyTokens n) = [n]"
| "uint256_args (Enc_proposeNewRent p) = [p]"
| "uint256_args (Enc_approve a n) = [n]"
| "uint256_args c = []"

text \<open>
  The encoder refuses an argument of Solidity type \<^verbatim>\<open>uint256\<close> that is negative or does
  not fit 256 bits. (Its check of address arguments is not modelled: every address the
  service encodes has been used for a successful contract read before.)
\<close>

definition encodeFunctionData :: "call_data \<Rightarrow> js_error + call_data" where
  "encodeFunctionData c =
     (if list_all (\<lambda>v. 0 \<le> v \<and> v < 2 ^ 256) (uint256_args c) then Inr c
      else Inl (ThrownError (Some ''INVALID_ARGUMENT'') ''value out-of-bounds''))"

text \<open>The argument of \<^verbatim>\<open>provider.estimateGas\<close>.\<close>

record gas_request =
  gas_from :: address
  gas_to :: address
  gas_data :: call_data
  gas_value :: "int option"

text \<open>
  The unsigned transaction object handed back for signing. \<open>tx_value\<close> is absent except
  where the source sets \<^verbatim>\<open>value\<close>, which it does with a decimal string.
\<close>

record unsigned_tx =
  tx_from :: address
  tx_to :: address
  tx_data :: call_data
  tx_value :: "string option"
  gasLimit :: nat
  gasPrice :: nat
  nonce :: nat
  chainId :: nat

text \<open>The struct \<^verbatim>\<open>currentProposal()\<close> returns.\<close>

record proposal =
  isActive :: bool
  proposedPrice :: uint256
  proposal_votesFor :: uint256
  proposal_votesAgainst :: uint256
  proposal_timestamp :: uint256

text \<open>The JSON object pinned by \<^verbatim>\<open>createListing\<close> (\<^verbatim>\<open>hardwareMetadata\<close>).\<close>

record hardware_metadata =
  meta_name :: string
  meta_instanceId :: string
  meta_image :: string
  meta_cpu :: string
  meta_memory :: string
  meta_location :: string

text \<open>
  \<^verbatim>\<open>response.data\<close> of a fetched metadata URL: a JSON object, given by its fields, or, when
  the body is not JSON, the text of the body (\<^verbatim>\<open>axios\<close> hands it over unparsed and does not
  throw). Other JSON values are not modelled.
\<close>

datatype response_data = JsonObject "(string \<times> string) list" | Body string

text \<open>
  The fields that \<^verbatim>\<open>{ ...data }\<close> copies: those of an object; for a string, one field per
  character, named by its index.
\<close>

fun spread :: "response_data \<Rightarrow> (string \<times> string) list" where
  "spread (JsonObject kvs) = kvs"
| "spread (Body s) = map (\<lambda>i. (toString (int i), [s ! i])) [0..<length s]"

subsection \<open>Awaited calls\<close>

text \<open>
  Every awaited call to the ledger or to an HTTP endpoint is recorded, so that a property
  can say which calls were made and in which order.
\<close>

datatype call =
    Call_owner
  | Call_getListings
  | Call_TOKEN_CONTRACT address
  | Call_NFT_CONTRACT address
  | Call_tokenPrice address
  | Call_rentalPrice address
  | Call_getAvailableTokensForSale address
  | Call_currentTenant address
  | Call_currentProposal address
  | Call_VOTE_THRESHOLD address
  | Call_PERCENTAGE_DECIMALS address
  | Call_callStatic_vote address bool address
  | Call_balanceOf address address
  | Call_totalSupply address
  | Call_allowance address address address
  | Call_tokenURI address nat
  | Call_estimateGas gas_request
  | Call_getGasPrice
  | Call_getTransactionCount address
  | Call_getNetwork
  | Call_axios_get string
  | Call_axios_request hardware_metadata

fun is_estimateGas :: "call \<Rightarrow> bool" where
  "is_estimateGas (Call_estimateGas r) = True"
| "is_estimateGas c = False"

text \<open>
  An asynchronous computation: what it throws or returns, and the calls it awaited, in
  order.
\<close>

type_synonym 'a io = "(js_error + 'a) \<times> call list"

definition io_return :: "'a \<Rightarrow> 'a io" where
  "io_return x = (Inr x, [])"

definition io_throw :: "js_error \<Rightarrow> 'a io" where
  "io_throw e = (Inl e, [])"

text \<open>A library function that returns or throws without awaiting anything.\<close>

definition io_lift :: "js_error + 'a \<Rightarrow> 'a io" where
  "io_lift r = (r, [])"

text \<open>Awaiting the call \<open>c\<close>, which the outside world answers with \<open>r\<close>.\<close>

definition perform :: "call \<Rightarrow> js_error + 'a \<Rightarrow> 'a io" where
  "perform c r = (r, [c])"

definition io_bind :: "'a io \<Rightarrow> ('a \<Rightarrow> 'b io) \<Rightarrow> 'b io" where
  "io_bind m f =
     (case fst m of
        Inl e \<Rightarrow> (Inl e, snd m)
      | Inr x \<Rightarrow> (fst (f x), snd m @ snd (f x)))"

text \<open>\<^verbatim>\<open>try { m } catch (error) { h(error) }\<close>.\<close>

definition io_catch :: "'a io \<Rightarrow> (js_error \<Rightarrow> 'a io) \<Rightarrow> 'a io" where
  "io_catch m h =
     (case fst m of
        Inl e \<Rightarrow> (fst (h e), snd m @ snd (h e))
      | Inr x \<Rightarrow> (Inr x, snd m))"

text \<open>
  \<^verbatim>\<open>Promise.all([a, b, c])\<close>: the three calls are all issued; the result is the triple of
  their answers, or a rejection when one of them is rejected.
\<close>

definition io_all3 :: "'a io \<Rightarrow> 'b io \<Rightarrow> 'c io \<Rightarrow> ('a \<times> 'b \<times> 'c) io" where
  "io_all3 a b c =
     ((case fst a of
         Inl e \<Rightarrow> Inl e
       | Inr x \<Rightarrow>
           (case fst b of
              Inl e \<Rightarrow> Inl e
            | Inr y \<Rightarrow> (case fst c of Inl e \<Rightarrow> Inl e | Inr z \<Rightarrow> Inr (x, y, z)))),
      snd a @ snd b @ snd c)"

text \<open>\<^verbatim>\<open>Promise.all(xs.map(f))\<close>, the tasks taken in the order of the array.\<close>

fun io_map :: "('a \<Rightarrow> 'b io) \<Rightarrow> 'a list \<Rightarrow> 'b list io" where
  "io_map f [] = io_return []"
| "io_map f (x # xs) = io_bind (f x) (\<lambda>y. io_bind (io_map f xs) (\<lambda>ys. io_return (y # ys)))"

section \<open>The outside world\<close>

text \<open>
  One request sees the ledger, the metadata store and the configuration as they are at
  that moment: the answer to each awaited call, which is a value or a thrown error. The
  record also carries the library functions on decimal text and on floating-point numbers
  that the service calls and that are not part of it.
\<close>

record env =
  marketplaceAddress :: address
    \<comment> \<open>\<^verbatim>\<open>Config.contractAddress[chain].marketplace\<close>\<close>
  marketplace_owner :: "js_error + address"
  marketplace_getListings :: "js_error + address list"
  dao_TOKEN_CONTRACT :: "address \<Rightarrow> js_error + address"
  dao_NFT_CONTRACT :: "address \<Rightarrow> js_error + address"
  dao_tokenPrice :: "address \<Rightarrow> js_error + uint256"
  dao_rentalPrice :: "address \<Rightarrow> js_error + uint256"
  dao_getAvailableTokensForSale :: "address \<Rightarrow> js_error + uint256"
  dao_currentTenant :: "address \<Rightarrow> js_error + address"
  dao_currentProposal :: "address \<Rightarrow> js_error + proposal"
  dao_VOTE_THRESHOLD :: "address \<Rightarrow> js_error + uint256"
  dao_PERCENTAGE_DECIMALS :: "address \<Rightarrow> js_error + uint256"
  dao_callStatic_vote :: "address \<Rightarrow> bool \<Rightarrow> address \<Rightarrow> js_error + unit"
    \<comment> \<open>\<^verbatim>\<open>daoContract.callStatic.vote(inFavor, { from })\<close>: DAO, vote, sender\<close>
  token_balanceOf :: "address \<Rightarrow> address \<Rightarrow> js_error + uint256"
    \<comment> \<open>token contract, holder\<close>
  token_totalSupply :: "address \<Rightarrow> js_error + uint256"
  token_allowance :: "address \<Rightarrow> address \<Rightarrow> address \<Rightarrow> js_error + uint256"
    \<comment> \<open>token contract, owner, spender\<close>
  nft_tokenURI :: "address \<Rightarrow> nat \<Rightarrow> js_error + string"
  provider_estimateGas :: "gas_request \<Rightarrow> js_error + nat"
  provider_getGasPrice :: "js_error + nat"
  provider_getTransactionCount :: "address \<Rightarrow> js_error + nat"
  provider_getNetwork :: "js_error + nat"
    \<comment> \<open>the \<^verbatim>\<open>chainId\<close> of the network object\<close>
  axios_get :: "string \<Rightarrow> js_error + response_data"
  axios_request :: "hardware_metadata \<Rightarrow> js_error + string"
    \<comment> \<open>pinning a JSON object: the \<^verbatim>\<open>IpfsHash\<close> of the response\<close>
  parseEther :: "string \<Rightarrow> js_error + int"
    \<comment> \<open>\<^verbatim>\<open>ethers.utils.parseEther(s)\<close>, which is \<^verbatim>\<open>parseUnits(s, "ether")\<close>\<close>
  formatEther :: "int \<Rightarrow> string"
  parseFloat :: "string \<Rightarrow> jsnum"
  Number_toString :: "jsnum \<Rightarrow> string"
    \<comment> \<open>a number in a template literal, or \<^verbatim>\<open>n.toString()\<close>\<close>
  localeCompare :: "string comparator"
    \<comment> \<open>\<^verbatim>\<open>a.localeCompare(b)\<close>, a consistent comparison of strings\<close>

section \<open>Requests and results\<close>

text \<open>
  The request interfaces share their address fields. \<open>numberOfTokens\<close> is any JavaScript
  number; when the field is absent it is \<open>Num 0\<close> (the code tests \<^verbatim>\<open>!numberOfTokens\<close> first,
  which holds for both). An absent \<open>totalTokens\<close> or \<open>inFavor\<close> is \<open>None\<close>, and a
  \<open>totalTokens\<close> that is present is an integral number.
\<close>

record user_req =
  userAddress :: address

record dao_req = user_req +
  daoAddress :: address

record tokens_req = dao_req +
  numberOfTokens :: jsnum

record propose_req = dao_req +
  newRentalPrice :: string

record vote_req = dao_req +
  inFavor :: "bool option"

record listing_req = user_req +
  hardwareName :: string
  totalTokens :: "int option"
  tokenPrice :: jsnum
  rentalPrice :: jsnum
  imageUrl :: string
  cpu :: string
  memory :: string
  location :: string
  instanceId :: string

record tx_result =
  tx :: unsigned_tx
  message :: string

record buy_result = tx_result +
  totalPayment :: string

record propose_result = tx_result +
  currentRentalPrice :: string
  res_newRentalPrice :: string
  voteThreshold :: string

record vote_result = tx_result +
  res_proposedPrice :: string
  votingWeight :: string
  vote :: string

record tenant_result = tx_result +
  res_rentalPrice :: string

datatype approval_result =
    NoApprovalNeeded string
    \<comment> \<open>\<^verbatim>\<open>{ needsApproval: false, message }\<close>\<close>
  | ApprovalNeeded unsigned_tx string string
    \<comment> \<open>\<^verbatim>\<open>{ needsApproval: true, tx, totalSupply, message }\<close>\<close>

record unlist_step =
  step_tx :: unsigned_tx
  description :: string

record unlist_result =
  transactions :: "unlist_step list"
  unlist_message :: string

text \<open>
  A listing is \<^verbatim>\<open>{ ...metadata, daoAddress, tokenPrice, rentalPrice }\<close>: the fields copied
  from the fetched metadata, except those that the three named fields override, and the
  three named fields.
\<close>

record listing =
  listing_metadata :: "(string \<times> string) list"
  listing_daoAddress :: address
  listing_tokenPrice :: string
  listing_rentalPrice :: string

section \<open>Transaction builders\<close>

subsection \<open>buyTokens (lines 366 to 466)\<close>

text \<open>
  \<^verbatim>\<open>numberOfTokens\<close> is converted by \<^verbatim>\<open>BigNumber.from\<close> three times (for the product at
  line 390, inside \<^verbatim>\<open>lt\<close> and for the encoder), each time with the same outcome; the model
  converts it where the source does so first. Once that conversion has succeeded the
  number is an integer in the safe range, which a template literal prints in decimal.
\<close>

definition buyTokens :: "env \<Rightarrow> tokens_req \<Rightarrow> buy_result io" where
  "buyTokens env req =
     (if js_falsy (numberOfTokens req) \<or> userAddress req = [] \<or> daoAddress req = [] then
        io_throw (BadRequest ''Number of tokens, user address, and DAO address are required'')
      else if js_ge (Num 0) (numberOfTokens req) then
        io_throw (BadRequest ''Amount must be greater than 0'')
      else
        io_catch
          (io_bind (perform (Call_tokenPrice (daoAddress req))
                      (dao_tokenPrice env (daoAddress req))) (\<lambda>price.
           io_bind (io_lift (BigNumber_from_number (numberOfTokens req))) (\<lambda>amount.
           io_bind (perform (Call_getAvailableTokensForSale (daoAddress req))
                      (dao_getAvailableTokensForSale env (daoAddress req))) (\<lambda>availableTokens.
           if uint availableTokens < amount then
             io_throw (BadRequest
               (''Not enough tokens available for sale. Requested: ''
                  @ toString amount
                  @ '', Available: '' @ toString (uint availableTokens)))
           else
           io_bind (io_lift (encodeFunctionData (Enc_buyTokens amount))) (\<lambda>buyData.
           io_bind (perform
                      (Call_estimateGas
                        \<lparr>gas_from = userAddress req, gas_to = daoAddress req,
                         gas_data = buyData, gas_value = Some (uint price * amount)\<rparr>)
                      (provider_estimateGas env
                        \<lparr>gas_from = userAddress req, gas_to = daoAddress req,
                         gas_data = buyData, gas_value = Some (uint price * amount)\<rparr>))
             (\<lambda>gasEstimate.
           io_bind (perform Call_getGasPrice (provider_getGasPrice env)) (\<lambda>gp.
           io_bind (perform (Call_getTransactionCount (userAddress req))
                      (provider_getTransactionCount env (userAddress req))) (\<lambda>n.
           io_bind (perform Call_getNetwork (provider_getNetwork env)) (\<lambda>cid.
           io_return
             \<lparr>tx = \<lparr>tx_from = userAddress req, tx_to = daoAddress req, tx_data = buyData,
                     tx_value = Some (toString (uint price * amount)),
                     gasLimit = gasEstimate, gasPrice = gp, nonce = n, chainId = cid\<rparr>,
              message =
                ''Transaction created to buy '' @ toString amount
                  @ '' tokens for '' @ formatEther env (uint price * amount)
                  @ '' ETH. Please sign to complete purchase.'',
              totalPayment = formatEther env (uint price * amount)\<rparr>)))))))))
          (\<lambda>error.
             if str_includes (error_message error) ''Not enough tokens available'' then
               io_throw error
             else if str_includes (error_message error) ''Incorrect payment amount'' then
               io_throw (BadRequest ''Incorrect payment amount calculated. Please try again.'')
             else
               io_throw (InternalServerError
                 (''Failed to prepare buy transaction: '' @ error_message error))))"

subsection \<open>proposeNewRentalPrice (lines 751 to 866)\<close>

definition proposeNewRentalPrice :: "env \<Rightarrow> propose_req \<Rightarrow> propose_result io" where
  "proposeNewRentalPrice env req =
     (if daoAddress req = [] \<or> userAddress req = [] \<or> newRentalPrice req = [] then
        io_throw (BadRequest ''DAO address, user address, and new rental price are required'')
      else if js_ge (Num 0) (parseFloat env (newRentalPrice req)) then
        io_throw (BadRequest ''Rental price must be greater than 0'')
      else
        io_catch
          (io_bind (perform (Call_TOKEN_CONTRACT (daoAddress req))
                      (dao_TOKEN_CONTRACT env (daoAddress req))) (\<lambda>tokenContractAddress.
           io_bind (perform (Call_balanceOf tokenContractAddress (userAddress req))
                      (token_balanceOf env tokenContractAddress (userAddress req)))
             (\<lambda>tokenBalance.
           if tokenBalance = 0 then
             io_throw (BadRequest ''You must be a token holder to propose a new rental price'')
           else
           io_bind (perform (Call_currentProposal (daoAddress req))
                      (dao_currentProposal env (daoAddress req))) (\<lambda>currentProposal.
           if isActive currentProposal then
             io_throw (BadRequest ''There's already an active proposal'')
           else
           io_bind (perform (Call_rentalPrice (daoAddress req))
                      (dao_rentalPrice env (daoAddress req))) (\<lambda>currentPrice.
           io_bind (io_lift (parseEther env (newRentalPrice req))) (\<lambda>newRentalPriceWei.
           io_bind (io_lift (encodeFunctionData (Enc_proposeNewRent newRentalPriceWei)))
             (\<lambda>proposeData.
           io_bind (perform
                      (Call_estimateGas
                        \<lparr>gas_from = userAddress req, gas_to = daoAddress req,
                         gas_data = proposeData, gas_value = None\<rparr>)
                      (provider_estimateGas env
                        \<lparr>gas_from = userAddress req, gas_to = daoAddress req,
                         gas_data = proposeData, gas_value = None\<rparr>))
             (\<lambda>gasEstimate.
           io_bind (perform Call_getGasPrice (provider_getGasPrice env)) (\<lambda>gp.
           io_bind (perform (Call_getTransactionCount (userAddress req))
                      (provider_getTransactionCount env (userAddress req))) (\<lambda>n.
           io_bind (perform Call_getNetwork (provider_getNetwork env)) (\<lambda>cid.
           io_bind (perform (Call_VOTE_THRESHOLD (daoAddress req))
                      (dao_VOTE_THRESHOLD env (daoAddress req))) (\<lambda>threshold.
           io_bind (perform (Call_PERCENTAGE_DECIMALS (daoAddress req))
                      (dao_PERCENTAGE_DECIMALS env (daoAddress req))) (\<lambda>percentageDecimals.
           io_return
             \<lparr>tx = \<lparr>tx_from = userAddress req, tx_to = daoAddress req,
                     tx_data = proposeData, tx_value = None,
                     gasLimit = gasEstimate, gasPrice = gp, nonce = n, chainId = cid\<rparr>,
              message =
                ''Transaction created to propose new rental price of ''
                  @ newRentalPrice req @ '' ETH/day (current: ''
                  @ formatEther env (uint currentPrice) @ '' ETH/day). Requires ''
                  @ Number_toString env
                      (js_divide (js_times (to_number (uint threshold)) (Num 100))
                         (to_number (uint percentageDecimals)))
                  @ ''% majority to pass.'',
              currentRentalPrice = formatEther env (uint currentPrice),
              res_newRentalPrice = newRentalPrice req,
              voteThreshold =
                Number_toString env
                  (js_divide (js_times (to_number (uint threshold)) (Num 100))
                         (to_number (uint percentageDecimals)))
                  @ ''%''\<rparr>)))))))))))))
          (\<lambda>error.
             if error_code error = Some ''CALL_EXCEPTION'' then
               io_throw (BadRequest
                 ''Contract call failed. Make sure the DAO contract is valid.'')
             else
               io_throw (InternalServerError
                 (''Failed to create proposal transaction: '' @ error_message error))))"

subsection \<open>voteOnProposal (lines 874 to 995)\<close>

definition voteOnProposal :: "env \<Rightarrow> vote_req \<Rightarrow> vote_result io" where
  "voteOnProposal env req =
     (case inFavor req of
        None \<Rightarrow>
          io_throw (BadRequest ''DAO address, user address, and vote choice are required'')
      | Some choice \<Rightarrow>
     if daoAddress req = [] \<or> userAddress req = [] then
       io_throw (BadRequest ''DAO address, user address, and vote choice are required'')
     else
       io_catch
         (io_bind (perform (Call_TOKEN_CONTRACT (daoAddress req))
                     (dao_TOKEN_CONTRACT env (daoAddress req))) (\<lambda>tokenContractAddress.
          io_bind (perform (Call_balanceOf tokenContractAddress (userAddress req))
                     (token_balanceOf env tokenContractAddress (userAddress req)))
            (\<lambda>tokenBalance.
          if tokenBalance = 0 then
            io_throw (BadRequest ''You must be a token holder to vote'')
          else
          io_bind (perform (Call_currentProposal (daoAddress req))
                     (dao_currentProposal env (daoAddress req))) (\<lambda>currentProposal.
          if \<not> isActive currentProposal then
            io_throw (BadRequest ''There's no active proposal to vote on'')
          else
          io_bind
            (io_catch
               (perform (Call_callStatic_vote (daoAddress req) choice (userAddress req))
                  (dao_callStatic_vote env (daoAddress req) choice (userAddress req)))
               (\<lambda>error.
                  if str_includes (error_message error) ''Already voted'' then
                    io_throw (BadRequest ''You have already voted on this proposal'')
                  else io_return ())) (\<lambda>_.
          io_bind (perform (Call_totalSupply tokenContractAddress)
                     (token_totalSupply env tokenContractAddress)) (\<lambda>supply.
          io_bind (perform (Call_PERCENTAGE_DECIMALS (daoAddress req))
                     (dao_PERCENTAGE_DECIMALS env (daoAddress req))) (\<lambda>percentageDecimals.
          io_bind (io_lift
                     (BigNumber_div (uint tokenBalance * uint percentageDecimals) (uint supply)))
            (\<lambda>voterWeight.
          io_bind (io_lift (encodeFunctionData (Enc_vote choice))) (\<lambda>voteData.
          io_bind (perform
                     (Call_estimateGas
                       \<lparr>gas_from = userAddress req, gas_to = daoAddress req,
                        gas_data = voteData, gas_value = None\<rparr>)
                     (provider_estimateGas env
                       \<lparr>gas_from = userAddress req, gas_to = daoAddress req,
                        gas_data = voteData, gas_value = None\<rparr>))
            (\<lambda>gasEstimate.
          io_bind (perform Call_getGasPrice (provider_getGasPrice env)) (\<lambda>gp.
          io_bind (perform (Call_getTransactionCount (userAddress req))
                     (provider_getTransactionCount env (userAddress req))) (\<lambda>n.
          io_bind (perform Call_getNetwork (provider_getNetwork env)) (\<lambda>cid.
          io_return
            \<lparr>tx = \<lparr>tx_from = userAddress req, tx_to = daoAddress req,
                    tx_data = voteData, tx_value = None,
                    gasLimit = gasEstimate, gasPrice = gp, nonce = n, chainId = cid\<rparr>,
             message =
               ''Transaction created to vote ''
                 @ (if choice then ''in favor of'' else ''against'')
                 @ '' the proposal to change rental price to ''
                 @ formatEther env (uint (proposedPrice currentProposal))
                 @ '' ETH/day. Your voting weight is ''
                 @ Number_toString env
                     (js_divide (js_times (to_number voterWeight) (Num 100))
                        (to_number (uint percentageDecimals)))
                 @ ''%.'',
             res_proposedPrice = formatEther env (uint (proposedPrice currentProposal)),
             votingWeight =
               Number_toString env
                 (js_divide (js_times (to_number voterWeight) (Num 100))
                        (to_number (uint percentageDecimals)))
                 @ ''%'',
             vote = (if choice then ''In favor'' else ''Against'')\<rparr>)))))))))))))
         (\<lambda>error.
            if error_code error = Some ''CALL_EXCEPTION'' then
              io_throw (BadRequest
                ''Contract call failed. Make sure the DAO contract is valid.'')
            else
              io_throw (InternalServerError
                (''Failed to create vote transaction: '' @ error_message error))))"

subsection \<open>becomeTenant (lines 1088 to 1183)\<close>

text \<open>Here the \<^verbatim>\<open>try\<close> block also encloses the check of the request fields.\<close>

definition becomeTenant :: "env \<Rightarrow> dao_req \<Rightarrow> tenant_result io" where
  "becomeTenant env req =
     io_catch
       (if userAddress req = [] \<or> daoAddress req = [] then
          io_throw (BadRequest ''User address and DAO address are required'')
        else
        io_bind (perform (Call_currentTenant (daoAddress req))
                   (dao_currentTenant env (daoAddress req))) (\<lambda>tenant.
        if tenant \<noteq> AddressZero then
          io_throw (BadRequest
            ''This property already has a tenant. It's not available for rent.'')
        else
        io_bind (perform (Call_rentalPrice (daoAddress req))
                   (dao_rentalPrice env (daoAddress req))) (\<lambda>price.
        io_bind (io_lift (encodeFunctionData Enc_becomeTenant)) (\<lambda>becomeTenantData.
        io_bind (perform
                   (Call_estimateGas
                     \<lparr>gas_from = userAddress req, gas_to = daoAddress req,
                      gas_data = becomeTenantData, gas_value = Some (uint price)\<rparr>)
                   (provider_estimateGas env
                     \<lparr>gas_from = userAddress req, gas_to = daoAddress req,
                      gas_data = becomeTenantData, gas_value = Some (uint price)\<rparr>))
          (\<lambda>gasEstimate.
        io_bind (perform Call_getGasPrice (provider_getGasPrice env)) (\<lambda>gp.
        io_bind (perform (Call_getTransactionCount (userAddress req))
                   (provider_getTransactionCount env (userAddress req))) (\<lambda>n.
        io_bind (perform Call_getNetwork (provider_getNetwork env)) (\<lambda>cid.
        io_return
          \<lparr>tx = \<lparr>tx_from = userAddress req, tx_to = daoAddress req,
                  tx_data = becomeTenantData, tx_value = Some (toString (uint price)),
                  gasLimit = gasEstimate, gasPrice = gp, nonce = n, chainId = cid\<rparr>,
           message =
             ''Transaction created to become a tenant for ''
               @ formatEther env (uint price) @ '' ETH. Please sign to complete the rental.'',
           res_rentalPrice = formatEther env (uint price)\<rparr>))))))))
       (\<lambda>error.
          if str_includes (error_message error) ''Property already rented'' then
            io_throw (BadRequest ''This property is already rented by another tenant.'')
          else if str_includes (error_message error) ''Incorrect rent amount'' then
            io_throw (BadRequest ''The rental payment amount is incorrect. Please try again.'')
          else
            io_throw (InternalServerError
              (''Failed to prepare tenant transaction: '' @ error_message error)))"

subsection \<open>getUnlistApprovalTx (lines 1358 to 1439)\<close>

definition getUnlistApprovalTx :: "env \<Rightarrow> dao_req \<Rightarrow> approval_result io" where
  "getUnlistApprovalTx env req =
     (if userAddress req = [] \<or> daoAddress req = [] then
        io_throw (BadRequest ''User address and DAO address are required'')
      else
        io_catch
          (io_bind (perform (Call_TOKEN_CONTRACT (daoAddress req))
                      (dao_TOKEN_CONTRACT env (daoAddress req))) (\<lambda>tokenContractAddress.
           io_bind (perform (Call_totalSupply tokenContractAddress)
                      (token_totalSupply env tokenContractAddress)) (\<lambda>supply.
           io_bind (perform (Call_balanceOf tokenContractAddress (userAddress req))
                      (token_balanceOf env tokenContractAddress (userAddress req)))
             (\<lambda>userBalance.
           if userBalance \<noteq> supply then
             io_throw (BadRequest
               (''You must own all tokens to unlock the NFT. You own ''
                  @ toString (uint userBalance) @ '' of '' @ toString (uint supply)
                  @ '' tokens.''))
           else
           io_bind (perform
                      (Call_allowance tokenContractAddress (userAddress req) (daoAddress req))
                      (token_allowance env tokenContractAddress (userAddress req)
                         (daoAddress req))) (\<lambda>approvedAmount.
           if supply \<le> approvedAmount then
             io_return (NoApprovalNeeded
               ''Tokens are already approved. Proceed to unlocking the NFT.'')
           else
           io_bind (io_lift (encodeFunctionData (Enc_approve (daoAddress req) (uint supply))))
             (\<lambda>approveData.
           io_bind (perform
                      (Call_estimateGas
                        \<lparr>gas_from = userAddress req, gas_to = tokenContractAddress,
                         gas_data = approveData, gas_value = None\<rparr>)
                      (provider_estimateGas env
                        \<lparr>gas_from = userAddress req, gas_to = tokenContractAddress,
                         gas_data = approveData, gas_value = None\<rparr>))
             (\<lambda>approveGasEstimate.
           io_bind (perform (Call_getTransactionCount (userAddress req))
                      (provider_getTransactionCount env (userAddress req))) (\<lambda>n.
           io_bind (perform Call_getGasPrice (provider_getGasPrice env)) (\<lambda>gp.
           io_bind (perform Call_getNetwork (provider_getNetwork env)) (\<lambda>cid.
           io_return (ApprovalNeeded
             \<lparr>tx_from = userAddress req, tx_to = tokenContractAddress,
              tx_data = approveData, tx_value = None,
              gasLimit = approveGasEstimate, gasPrice = gp, nonce = n, chainId = cid\<rparr>
             (toString (uint supply))
             ''Approve token transfer to DAO contract before unlocking NFT'')))))))))))
          (\<lambda>error.
             io_throw (InternalServerError
               (''Failed to prepare approval transaction: '' @ error_message error))))"

subsection \<open>completeUnlist (lines 1441 to 1571)\<close>

definition completeUnlist :: "env \<Rightarrow> dao_req \<Rightarrow> unlist_result io" where
  "completeUnlist env req =
     (if userAddress req = [] \<or> daoAddress req = [] then
        io_throw (BadRequest ''User address and DAO address are required'')
      else
        io_catch
          (io_bind (perform Call_owner (marketplace_owner env)) (\<lambda>marketplaceOwner.
           if toLowerCase marketplaceOwner \<noteq> toLowerCase (userAddress req) then
             io_throw (BadRequest ''Only the marketplace owner can remove the listing'')
           else
           io_bind (perform (Call_TOKEN_CONTRACT (daoAddress req))
                      (dao_TOKEN_CONTRACT env (daoAddress req))) (\<lambda>tokenContractAddress.
           io_bind (perform (Call_totalSupply tokenContractAddress)
                      (token_totalSupply env tokenContractAddress)) (\<lambda>supply.
           io_bind (perform
                      (Call_allowance tokenContractAddress (userAddress req) (daoAddress req))
                      (token_allowance env tokenContractAddress (userAddress req)
                         (daoAddress req))) (\<lambda>approvedAmount.
           if approvedAmount < supply then
             io_throw (BadRequest
               (''You must approve the DAO to transfer all tokens first. Currently approved: ''
                  @ toString (uint approvedAmount) @ '' of '' @ toString (uint supply)
                  @ '' needed.''))
           else
           io_bind (perform (Call_getTransactionCount (userAddress req))
                      (provider_getTransactionCount env (userAddress req))) (\<lambda>n.
           io_bind (perform Call_getGasPrice (provider_getGasPrice env)) (\<lambda>gp.
           io_bind (perform Call_getNetwork (provider_getNetwork env)) (\<lambda>cid.
           io_bind (io_lift (encodeFunctionData Enc_unlockNFT)) (\<lambda>unlockData.
           io_bind (perform
                      (Call_estimateGas
                        \<lparr>gas_from = userAddress req, gas_to = daoAddress req,
                         gas_data = unlockData, gas_value = None\<rparr>)
                      (provider_estimateGas env
                        \<lparr>gas_from = userAddress req, gas_to = daoAddress req,
                         gas_data = unlockData, gas_value = None\<rparr>))
             (\<lambda>unlockGasEstimate.
           io_bind (io_lift (encodeFunctionData (Enc_removeListing (daoAddress req))))
             (\<lambda>removeData.
           io_bind (perform
                      (Call_estimateGas
                        \<lparr>gas_from = userAddress req, gas_to = marketplaceAddress env,
                         gas_data = removeData, gas_value = None\<rparr>)
                      (provider_estimateGas env
                        \<lparr>gas_from = userAddress req, gas_to = marketplaceAddress env,
                         gas_data = removeData, gas_value = None\<rparr>))
             (\<lambda>removeGasEstimate.
           io_return
             \<lparr>transactions =
                [\<lparr>step_tx =
                    \<lparr>tx_from = userAddress req, tx_to = daoAddress req,
                     tx_data = unlockData, tx_value = None,
                     gasLimit = unlockGasEstimate, gasPrice = gp, nonce = n, chainId = cid\<rparr>,
                  description = ''Step 1: Unlock NFT by burning all tokens''\<rparr>,
                 \<lparr>step_tx =
                    \<lparr>tx_from = userAddress req, tx_to = marketplaceAddress env,
                     tx_data = removeData, tx_value = None,
                     gasLimit = removeGasEstimate, gasPrice = gp, nonce = n + 1,
                     chainId = cid\<rparr>,
                  description = ''Step 2: Remove listing from marketplace''\<rparr>],
              unlist_message =
                ''Execute these transactions in sequence to unlock the NFT and remove the listing''\<rparr>
             ))))))))))))
          (\<lambda>error.
             io_throw (InternalServerError
               (''Failed to prepare unlisting transactions: '' @ error_message error))))"

section \<open>Listing aggregation\<close>

text \<open>
  The task \<^verbatim>\<open>getListing\<close> (lines 479 to 570) starts for one DAO address: \<open>None\<close> is the
  \<^verbatim>\<open>null\<close> its \<^verbatim>\<open>catch\<close> returns. The tasks run concurrently in the source; the calls of
  the tasks are recorded here one task after the other, and no answer depends on that order.
\<close>

definition resolveListing :: "env \<Rightarrow> address \<Rightarrow> listing option io" where
  "resolveListing env dao =
     io_catch
       (io_bind
          (io_all3
             (perform (Call_NFT_CONTRACT dao) (dao_NFT_CONTRACT env dao))
             (perform (Call_tokenPrice dao) (dao_tokenPrice env dao))
             (perform (Call_rentalPrice dao) (dao_rentalPrice env dao)))
          (\<lambda>(nftContractAddress, tp, rp).
        io_bind (perform (Call_tokenURI nftContractAddress 0)
                   (nft_tokenURI env nftContractAddress 0)) (\<lambda>metadataUrl.
        io_bind (perform (Call_axios_get metadataUrl) (axios_get env metadataUrl)) (\<lambda>metadata.
        io_return
          (Some \<lparr>listing_metadata =
                   filter (\<lambda>(k, v). k \<notin> {''daoAddress'', ''tokenPrice'', ''rentalPrice''})
                     (spread metadata),
                 listing_daoAddress = dao,
                 listing_tokenPrice = formatEther env (uint tp),
                 listing_rentalPrice = formatEther env (uint rp)\<rparr>)))))
       (\<lambda>error. io_return None)"

text \<open>\<^verbatim>\<open>results.filter((listing) => listing !== null)\<close>.\<close>

fun dropNulls :: "'a option list \<Rightarrow> 'a list" where
  "dropNulls [] = []"
| "dropNulls (None # xs) = dropNulls xs"
| "dropNulls (Some x # xs) = x # dropNulls xs"

text \<open>
  \<^verbatim>\<open>Array.prototype.sort\<close> with a comparison function is a stable sort; here the function
  compares the \<^verbatim>\<open>daoAddress\<close> fields with \<^verbatim>\<open>localeCompare\<close>.
\<close>

definition getListing :: "env \<Rightarrow> listing list io" where
  "getListing env =
     io_catch
       (io_bind (perform Call_getListings (marketplace_getListings env)) (\<lambda>daoAddresses.
        io_bind (io_map (resolveListing env) daoAddresses) (\<lambda>results.
        io_return
          (Sorting_Algorithms.sort (key listing_daoAddress (localeCompare env))
             (dropNulls results)))))
       (\<lambda>error.
          io_throw (InternalServerError (''Failed to get listings: '' @ error_message error)))"

section \<open>createListing (lines 72 to 188)\<close>

text \<open>
  \<^verbatim>\<open>ethers.BigNumber.from(totalTokens || "1000")\<close>: an absent or zero \<^verbatim>\<open>totalTokens\<close> is
  falsy, and the string \<^verbatim>\<open>"1000"\<close> converts to the integer 1000.
\<close>

definition totalTokensOrDefault :: "int option \<Rightarrow> js_error + int" where
  "totalTokensOrDefault t =
     (case t of
        None \<Rightarrow> Inr 1000
      | Some n \<Rightarrow> if n = 0 then Inr 1000 else BigNumber_from n)"

text \<open>
  This function has no \<^verbatim>\<open>try\<close> block: what a call throws is what the function throws. The
  copy of the function in \<^verbatim>\<open>packages/nodejs-backend/src/services/compute.ts\<close> differs only
  in not having the field \<^verbatim>\<open>instanceId\<close>.
\<close>

definition createListing :: "env \<Rightarrow> listing_req \<Rightarrow> tx_result io" where
  "createListing env listing =
     (if hardwareName listing = [] \<or> userAddress listing = [] then
        io_throw (BadRequest ''Hardware name and user address are required'')
      else
        io_bind (perform
                   (Call_axios_request
                     \<lparr>meta_name = hardwareName listing, meta_instanceId = instanceId listing,
                      meta_image = imageUrl listing, meta_cpu = cpu listing,
                      meta_memory = memory listing, meta_location = location listing\<rparr>)
                   (axios_request env
                     \<lparr>meta_name = hardwareName listing, meta_instanceId = instanceId listing,
                      meta_image = imageUrl listing, meta_cpu = cpu listing,
                      meta_memory = memory listing, meta_location = location listing\<rparr>))
          (\<lambda>ipfsHash.
        io_bind (io_lift (totalTokensOrDefault (totalTokens listing))) (\<lambda>total.
        io_bind (io_lift (parseEther env (Number_toString env (tokenPrice listing))))
          (\<lambda>tokenPriceWei.
        io_bind (io_lift (parseEther env (Number_toString env (rentalPrice listing))))
          (\<lambda>rentalPriceWei.
        io_bind (io_lift (encodeFunctionData
                   (Enc_createListing
                      (hardwareName listing @ '' NFT'') (nftSymbol (hardwareName listing))
                      (hardwareName listing @ '' Token'') (tokenSymbol (hardwareName listing))
                      (''https://gateway.pinata.cloud/ipfs/'' @ ipfsHash)
                      total tokenPriceWei rentalPriceWei))) (\<lambda>data.
        io_bind (perform
                   (Call_estimateGas
                     \<lparr>gas_from = userAddress listing, gas_to = marketplaceAddress env,
                      gas_data = data, gas_value = None\<rparr>)
                   (provider_estimateGas env
                     \<lparr>gas_from = userAddress listing, gas_to = marketplaceAddress env,
                      gas_data = data, gas_value = None\<rparr>))
          (\<lambda>gasEstimate.
        io_bind (perform Call_getGasPrice (provider_getGasPrice env)) (\<lambda>gp.
        io_bind (perform (Call_getTransactionCount (userAddress listing))
                   (provider_getTransactionCount env (userAddress listing))) (\<lambda>n.
        io_bind (perform Call_getNetwork (provider_getNetwork env)) (\<lambda>cid.
        io_return
          \<lparr>tx = \<lparr>tx_from = userAddress listing, tx_to = marketplaceAddress env,
                  tx_data = data, tx_value = None,
                  gasLimit = gasEstimate, gasPrice = gp, nonce = n, chainId = cid\<rparr>,
           message = ''Transaction created successfully. Please sign and submit.''\<rparr>
          ))))))))))"

section \<open>Notions used by the properties\<close>

text \<open>The HTTP status of what a computation throws, if it throws an HTTP error.\<close>

fun thrown_status :: "'a io \<Rightarrow> nat option" where
  "thrown_status (Inl (HttpError st msg), l) = Some st"
| "thrown_status (r, l) = None"

text \<open>
  A DAO resolves when none of the awaited calls of its task throws: the three reads of the
  DAO, the read of the metadata URI and the fetch of the metadata.
\<close>

definition resolves :: "env \<Rightarrow> address \<Rightarrow> bool" where
  "resolves env dao =
     (case dao_NFT_CONTRACT env dao of
        Inl e \<Rightarrow> False
      | Inr nftContractAddress \<Rightarrow>
          (case dao_tokenPrice env dao of
             Inl e \<Rightarrow> False
           | Inr tp \<Rightarrow>
               (case dao_rentalPrice env dao of
                  Inl e \<Rightarrow> False
                | Inr rp \<Rightarrow>
                    (case nft_tokenURI env nftContractAddress 0 of
                       Inl e \<Rightarrow> False
                     | Inr metadataUrl \<Rightarrow>
                         (case axios_get env metadataUrl of
                            Inl e \<Rightarrow> False
                          | Inr metadata \<Rightarrow> True)))))"

text \<open>What the task of a DAO settles to: it never throws.\<close>

definition resolved :: "env \<Rightarrow> address \<Rightarrow> listing option" where
  "resolved env dao = projr (fst (resolveListing env dao))"

section \<open>A sample world\<close>

text \<open>
  A small world on which the builders are run below. Three DAOs are registered, in the
  order C, A, B. The metadata of A cannot be fetched, B has a tenant, C has an active
  proposal. The account \<open>0xOwner\<close> owns the marketplace and the whole supply of 1000
  tokens as far as \<open>balanceOf\<close> tells, and has approved DAO A for all of it; Carol and Dave
  hold 100 tokens each, Carol has voted already, and the node fails on Dave's simulated
  vote; nobody else holds tokens.
\<close>

definition sample_proposal :: "bool \<Rightarrow> proposal" where
  "sample_proposal active =
     \<lparr>isActive = active, proposedPrice = 300, proposal_votesFor = 0,
      proposal_votesAgainst = 0, proposal_timestamp = 1700000000\<rparr>"

text \<open>
  The decimal text of an amount of wei in ether, as \<^verbatim>\<open>formatEther\<close> prints it: at least
  one digit after the point, no trailing zeros beyond it.
\<close>

definition ether_text :: "int \<Rightarrow> string" where
  "ether_text wei =
     (let a = nat \<bar>wei\<bar>;
          frac = digits10 (a mod 10 ^ 18);
          padded = replicate (18 - length frac) CHR ''0'' @ frac;
          trimmed = rev (dropWhile (\<lambda>c. c = CHR ''0'') (rev padded))
      in (if wei < 0 then ''-'' else []) @ digits10 (a div 10 ^ 18) @ ''.''
           @ (if trimmed = [] then ''0'' else trimmed))"

text \<open>
  The library functions on numbers with a fraction are tabulated on the two prices used
  below, \<open>0.5\<close> and \<open>0.01\<close>.
\<close>

definition sample_parseEther :: "string \<Rightarrow> js_error + int" where
  "sample_parseEther s =
     (if s = ''0.5'' then Inr 500000000000000000
      else if s = ''0.01'' then Inr 10000000000000000
      else Inl (ThrownError (Some ''INVALID_ARGUMENT'') ''invalid decimal value''))"

definition sample_parseFloat :: "string \<Rightarrow> jsnum" where
  "sample_parseFloat s =
     (if s = ''0.5'' then Num (1 / 2) else if s = ''0.01'' then Num (1 / 100) else NaN)"

fun sample_Number_toString :: "jsnum \<Rightarrow> string" where
  "sample_Number_toString (Num r) =
     (if r = 1 / 2 then ''0.5'' else if r = 1 / 100 then ''0.01'' else toString \<lfloor>r\<rfloor>)"
| "sample_Number_toString NegZero = ''0''"
| "sample_Number_toString PosInfinity = ''Infinity''"
| "sample_Number_toString NegInfinity = ''-Infinity''"
| "sample_Number_toString NaN = ''NaN''"

definition sample_env :: env where
  "sample_env =
     \<lparr>marketplaceAddress = ''0xMarket'',
      marketplace_owner = Inr ''0xOwner'',
      marketplace_getListings = Inr [''0xDaoC'', ''0xDaoA'', ''0xDaoB''],
      dao_TOKEN_CONTRACT = (\<lambda>dao. Inr ''0xToken''),
      dao_NFT_CONTRACT = (\<lambda>dao. Inr (''nft-of-'' @ dao)),
      dao_tokenPrice = (\<lambda>dao. Inr 2000),
      dao_rentalPrice = (\<lambda>dao. Inr 500),
      dao_getAvailableTokensForSale = (\<lambda>dao. Inr 3),
      dao_currentTenant = (\<lambda>dao. Inr (if dao = ''0xDaoB'' then ''0xTenant'' else AddressZero)),
      dao_currentProposal = (\<lambda>dao. Inr (sample_proposal (dao = ''0xDaoC''))),
      dao_VOTE_THRESHOLD = (\<lambda>dao. Inr 5100),
      dao_PERCENTAGE_DECIMALS = (\<lambda>dao. Inr 10000),
      dao_callStatic_vote = (\<lambda>dao choice sender.
         if sender = ''0xCarol'' then
           Inl (ThrownError (Some ''CALL_EXCEPTION'') ''execution reverted: Already voted'')
         else if sender = ''0xDave'' then
           Inl (ThrownError (Some ''SERVER_ERROR'') ''missing response'')
         else Inr ()),
      token_balanceOf = (\<lambda>token holder.
         Inr (if holder = ''0xOwner'' then 1000
              else if holder = ''0xCarol'' \<or> holder = ''0xDave'' then 100 else 0)),
      token_totalSupply = (\<lambda>token. Inr 1000),
      token_allowance = (\<lambda>token holder spender.
         Inr (if holder = ''0xOwner'' \<and> spender = ''0xDaoA'' then 1000 else 0)),
      nft_tokenURI = (\<lambda>nft tokenId. Inr (''https://meta.example/'' @ nft)),
      provider_estimateGas = (\<lambda>request. Inr 21000),
      provider_getGasPrice = Inr 7,
      provider_getTransactionCount = (\<lambda>account. Inr 5),
      provider_getNetwork = Inr 31337,
      axios_get = (\<lambda>url.
         if url = ''https://meta.example/nft-of-0xDaoA'' then
           Inl (ThrownError (Some ''ERR_BAD_REQUEST'') ''Request failed with status code 404'')
         else Inr (JsonObject [(''name'', ''GPU node''), (''cpu'', ''8 cores'')])),
      axios_request = (\<lambda>content. Inr ''QmSampleHash''),
      parseEther = sample_parseEther,
      formatEther = ether_text,
      parseFloat = sample_parseFloat,
      Number_toString = sample_Number_toString,
      localeCompare = default\<rparr>"

text \<open>
  The same world, except that every metadata URL can be fetched: that of DAO A answers with
  an HTML page and that of DAO B with the empty JSON object.
\<close>

definition sample_env_malformed :: env where
  "sample_env_malformed =
     sample_env\<lparr>axios_get := (\<lambda>url.
        if url = ''https://meta.example/nft-of-0xDaoA'' then Inr (Body ''<html>'')
        else if url = ''https://meta.example/nft-of-0xDaoB'' then Inr (JsonObject [])
        else Inr (JsonObject [(''name'', ''GPU node''), (''cpu'', ''8 cores'')]))\<rparr>"

text \<open>A listing request that leaves \<^verbatim>\<open>totalTokens\<close> out.\<close>

definition sample_listing_req :: listing_req where
  "sample_listing_req =
     \<lparr>userAddress = ''0xOwner'', hardwareName = ''NVIDIA A100!!'', totalTokens = None,
      tokenPrice = Num (1 / 100), rentalPrice = Num (1 / 2), imageUrl = ''ipfs://image'',
      cpu = ''8 cores'', memory = ''80GB'', location = ''US East'', instanceId = ''i-1''\<rparr>"

section \<open>Properties\<close>

subsection \<open>Laws of the effect combinators\<close>

lemma io_bind_perform_Inr [simp]:
  "io_bind (perform c (Inr x)) f = (fst (f x), c # snd (f x))"
  by (simp add: io_bind_def perform_def)

lemma io_bind_perform_Inl [simp]:
  "io_bind (perform c (Inl e)) f = (Inl e, [c])"
  by (simp add: io_bind_def perform_def)

lemma io_bind_lift_Inr [simp]:
  "io_bind (io_lift (Inr x)) f = f x"
  by (simp add: io_bind_def io_lift_def)

lemma io_bind_lift_Inl [simp]:
  "io_bind (io_lift (Inl e)) f = (Inl e, [])"
  by (simp add: io_bind_def io_lift_def)

lemma io_bind_throw [simp]: "io_bind (io_throw e) f = io_throw e"
  by (simp add: io_bind_def io_throw_def)

lemma io_bind_return [simp]: "io_bind (io_return x) f = f x"
  by (simp add: io_bind_def io_return_def)

lemma io_catch_pair_Inl [simp]: "io_catch (Inl e, l) h = (fst (h e), l @ snd (h e))"
  by (simp add: io_catch_def)

lemma io_catch_pair_Inr [simp]: "io_catch (Inr x, l) h = (Inr x, l)"
  by (simp add: io_catch_def)

lemma io_catch_throw [simp]: "io_catch (io_throw e) h = h e"
  by (simp add: io_catch_def io_throw_def)

lemma fst_io_throw [simp]: "fst (io_throw e) = Inl e"
  by (simp add: io_throw_def)

lemma snd_io_throw [simp]: "snd (io_throw e) = []"
  by (simp add: io_throw_def)

lemma fst_io_return [simp]: "fst (io_return x) = Inr x"
  by (simp add: io_return_def)

lemma snd_io_return [simp]: "snd (io_return x) = []"
  by (simp add: io_return_def)

lemma fst_perform [simp]: "fst (perform c r) = r"
  by (simp add: perform_def)

lemma snd_perform [simp]: "snd (perform c r) = [c]"
  by (simp add: perform_def)

lemma fst_io_lift [simp]: "fst (io_lift r) = r"
  by (simp add: io_lift_def)

lemma snd_io_lift [simp]: "snd (io_lift r) = []"
  by (simp add: io_lift_def)

lemma fst_io_bind_Inr_iff:
  "fst (io_bind m f) = Inr y \<longleftrightarrow> (\<exists>x. fst m = Inr x \<and> fst (f x) = Inr y)"
  by (cases "fst m") (simp_all add: io_bind_def)

lemma fst_io_catch_Inr_iff:
  "fst (io_catch m h) = Inr y \<longleftrightarrow> fst m = Inr y \<or> (\<exists>e. fst m = Inl e \<and> fst (h e) = Inr y)"
  by (cases "fst m") (simp_all add: io_catch_def)

lemma str_includes_prefix: "prefix t s \<Longrightarrow> str_includes s t"
  by (cases s) auto

lemma digits10_small: "n < 10 \<Longrightarrow> digits10 n = [''0123456789'' ! n]"
  by (simp add: digits10.simps)

lemma digits10_large: "\<not> n < 10 \<Longrightarrow> digits10 n = digits10 (n div 10) @ [''0123456789'' ! (n mod 10)]"
  by (subst digits10.simps) simp

lemma io_bind_pair_Inr [simp]: "io_bind (Inr x, l) f = (fst (f x), l @ snd (f x))"
  by (simp add: io_bind_def)

lemma io_bind_pair_Inl [simp]: "io_bind (Inl e, l) f = (Inl e, l)"
  by (simp add: io_bind_def)

lemma io_catch_perform_Inl [simp]:
  "io_catch (perform c (Inl e)) h = (fst (h e), c # snd (h e))"
  by (simp add: io_catch_def)

lemma io_catch_perform_Inr [simp]: "io_catch (perform c (Inr x)) h = (Inr x, [c])"
  by (simp add: io_catch_def)

lemma snd_io_bind:
  "snd (io_bind m f) = snd m @ (case fst m of Inl e \<Rightarrow> [] | Inr x \<Rightarrow> snd (f x))"
  by (cases "fst m") (simp_all add: io_bind_def)

lemma snd_io_catch:
  "snd (io_catch m h) = snd m @ (case fst m of Inl e \<Rightarrow> snd (h e) | Inr x \<Rightarrow> [])"
  by (cases "fst m") (simp_all add: io_catch_def)

lemma io_map_total:
  assumes "\<And>x. \<exists>y. fst (f x) = Inr y"
  shows "fst (io_map f xs) = Inr (map (\<lambda>x. projr (fst (f x))) xs)"
proof (induction xs)
  case Nil
  show ?case by simp
next
  case (Cons x xs)
  obtain y where y: "fst (f x) = Inr y" using assms by blast
  show ?case
    by (simp add: io_bind_def y Cons.IH)
qed

subsection \<open>Rounding to doubles\<close>

lemma log2floor_small: "n < 2 \<Longrightarrow> log2floor n = 0"
  by (simp add: log2floor.simps)

lemma log2floor_large: "\<not> n < 2 \<Longrightarrow> log2floor n = 1 + log2floor (n div 2)"
  by (subst log2floor.simps) simp

lemma floor_rat_numeral: "\<lfloor>numeral a / numeral b :: rat\<rfloor> = numeral a div numeral b"
  by (metis floor_divide_of_int_eq of_int_numeral)

lemma ceiling_rat_numeral: "\<lceil>numeral a / numeral b :: rat\<rceil> = - (- numeral a div numeral b)"
  by (metis ceiling_def floor_divide_of_int_eq of_int_numeral of_int_minus minus_divide_left)

lemma round_double_pos:
  assumes "0 < x" and "exponent_of x = e" and "- 1022 \<le> e"
    and "round_half_even (x / pow2 (e - 52)) = n" and "0 < n"
    and "of_int n * pow2 (e - 52) < pow2 1024"
  shows "round_double x = Num (of_int n * pow2 (e - 52))"
proof -
  have "max (exponent_of \<bar>x\<bar>) (- 1022) = e"
    using assms(1-3) by simp
  moreover have "of_int n * pow2 (e - 52) \<noteq> 0"
    using assms(5) by (simp add: pow2_def)
  ultimately show ?thesis
    using assms by (simp add: round_double_def Let_def)
qed

text \<open>The roundings met at the scale 10000 with threshold 6401 and 3599 votes against.\<close>

lemma fl_6401: "round_double (640100 / 10000) = Num (4504303314812273 / 70368744177664)"
proof -
  have "round_double (640100 / 10000) = Num (of_int 4504303314812273 * pow2 (6 - 52))"
    by (rule round_double_pos)
      (simp_all add: exponent_of_def log2floor_small log2floor_large floor_rat_numeral
        round_half_even_def pow2_def Let_def)
  then show ?thesis by (simp add: pow2_def)
qed

lemma fl_3599: "round_double (359900 / 10000) = Num (5065142205908255 / 140737488355328)"
proof -
  have "round_double (359900 / 10000) = Num (of_int 5065142205908255 * pow2 (5 - 52))"
    by (rule round_double_pos)
      (simp_all add: exponent_of_def log2floor_small log2floor_large floor_rat_numeral
        round_half_even_def pow2_def Let_def)
  then show ?thesis by (simp add: pow2_def)
qed

lemma fl_diff:
  "round_double (100 - 4504303314812273 / 70368744177664) =
     Num (5065142205908254 / 140737488355328)"
proof -
  have "round_double (100 - 4504303314812273 / 70368744177664) =
          Num (of_int 5065142205908254 * pow2 (5 - 52))"
    by (rule round_double_pos)
      (simp_all add: exponent_of_def log2floor_small log2floor_large floor_rat_numeral
        round_half_even_def pow2_def Let_def)
  then show ?thesis by (simp add: pow2_def)
qed

lemma log2floor_bounds:
  "1 \<le> n \<Longrightarrow> 0 \<le> log2floor n \<and> 2 ^ nat (log2floor n) \<le> n \<and> n < 2 * 2 ^ nat (log2floor n)"
proof (induction n rule: log2floor.induct)
  case (1 n)
  show ?case
  proof (cases "n < 2")
    case True
    with "1.prems" have "n = 1" by simp
    then show ?thesis by (simp add: log2floor_small)
  next
    case False
    then have "1 \<le> n div 2" by simp
    with "1.IH" False have ih: "0 \<le> log2floor (n div 2)"
      "2 ^ nat (log2floor (n div 2)) \<le> n div 2"
      "n div 2 < 2 * 2 ^ nat (log2floor (n div 2))"
      by simp_all
    have l: "log2floor n = 1 + log2floor (n div 2)"
      using False by (rule log2floor_large)
    have p: "(2::int) ^ nat (1 + log2floor (n div 2)) = 2 * 2 ^ nat (log2floor (n div 2))"
      using ih(1) by (simp add: nat_add_distrib)
    show ?thesis
      unfolding l p using ih by (auto simp: nat_add_distrib)
  qed
qed

lemma round_half_even_of_int: "round_half_even (of_int j) = j"
  by (simp add: round_half_even_def)

lemma round_double_of_int:
  assumes "0 < k" and "k < 2 ^ 53"
  shows "round_double (of_int k) = Num (of_int k)"
proof -
  define e where "e = log2floor k"
  have b: "0 \<le> e" "2 ^ nat e \<le> k" "k < 2 * 2 ^ nat e"
    using log2floor_bounds [of k] assms(1) by (simp_all add: e_def)
  have "(2::int) ^ nat e < 2 ^ 53"
    using b(2) assms(2) by linarith
  then have "nat e < 53"
    using power_less_imp_less_exp [of "2::int" "nat e" 53] by simp
  then have e52: "e \<le> 52" by simp
  define p where "p = nat (52 - e)"
  have pw: "pow2 (e - 52) = 1 / 2 ^ p"
    using e52 by (cases "e = 52") (simp_all add: pow2_def p_def)
  have ex: "exponent_of (of_int k) = e"
    using assms(1) by (simp add: exponent_of_def e_def)
  have q: "rat_of_int k / pow2 (e - 52) = of_int (k * 2 ^ p)"
    by (simp add: pw)
  have "round_double (of_int k) = Num (of_int (k * 2 ^ p) * pow2 (e - 52))"
  proof (rule round_double_pos)
    show "0 < rat_of_int k" using assms(1) by simp
    show "exponent_of (rat_of_int k) = e" by (rule ex)
    show "- 1022 \<le> e" using b(1) by simp
    show "round_half_even (rat_of_int k / pow2 (e - 52)) = k * 2 ^ p"
      unfolding q by (rule round_half_even_of_int)
    show "0 < k * 2 ^ p" using assms(1) by simp
    have "rat_of_int (k * 2 ^ p) * pow2 (e - 52) = of_int k"
      by (simp add: pw)
    moreover have "rat_of_int k < 2 ^ 53"
      using assms(2) by (metis of_int_less_iff of_int_numeral of_int_power)
    moreover have "(2::rat) ^ 53 < pow2 1024"
      by (simp add: pow2_def)
    ultimately show "rat_of_int (k * 2 ^ p) * pow2 (e - 52) < pow2 1024"
      by linarith
  qed
  then show ?thesis by (simp add: pw)
qed

lemma round_double_numeral:
  "numeral w < (2::int) ^ 53 \<Longrightarrow> round_double (numeral w) = Num (numeral w)"
  using round_double_of_int [of "numeral w"] by simp

lemma fl_6401': "round_double (6401 / 100) = Num (4504303314812273 / 70368744177664)"
  using fl_6401 by simp

lemma fl_3599': "round_double (3599 / 100) = Num (5065142205908255 / 140737488355328)"
  using fl_3599 by simp

lemma fl_diff': "round_double (2532571102954127 / 70368744177664) = Num (2532571102954127 / 70368744177664)"
  using fl_diff by simp

subsection \<open>Proposal status\<close>

text \<open>The three sample classifications of the specification.\<close>

lemma getProposalStatus_samples:
  "getProposalStatus (Num 60) (Num 10) (Num 51) (Num 100) = ''Passing''
   \<and> getProposalStatus (Num 20) (Num 60) (Num 51) (Num 100) = ''Failing''
   \<and> getProposalStatus (Num 20) (Num 10) (Num 51) (Num 100) = ''In Progress''"
  by (simp add: getProposalStatus_def js_times_def js_divide_def js_minus_def js_ge_def js_gt_def
      round_double_numeral)

lemma round_double_of_nonneg:
  "0 \<le> k \<Longrightarrow> k < 2 ^ 53 \<Longrightarrow> round_double (of_int k) = Num (of_int k)"
  using round_double_of_int [of k] by (cases "k = 0") (simp_all add: round_double_def)

text \<open>
  At the scale 100 the code computes the claim's classification: for whole vote counts
  below \<open>2^46\<close> and a whole threshold of at most 100 the three percentages and the complement
  of the threshold are computed without rounding.
\<close>

lemma percentage_of_hundredths:
  assumes "0 \<le> v" and "v < 2 ^ 46"
  shows "js_divide (js_times (Num (of_int v)) (Num 100)) (Num 100) = Num (of_int v)"
proof (cases "v = 0")
  case True
  then show ?thesis
    by (simp add: js_times_def js_divide_def signed_zero_def)
next
  case False
  with assms have pos: "0 < v * 100" "v * 100 < 2 ^ 53" "v < 2 ^ 53"
    by simp_all
  have "round_double (rat_of_int v * 100) = Num (rat_of_int v * 100)"
    using round_double_of_int [OF pos(1,2)] by simp
  moreover have "round_double (rat_of_int v) = Num (rat_of_int v)"
    using round_double_of_int [of v] assms(1) False pos(3) by simp
  ultimately show ?thesis
    using False by (simp add: js_times_def js_divide_def)
qed

lemma getProposalStatus_hundredths:
  assumes "0 \<le> vf" "vf < 2 ^ 46" "0 \<le> va" "va < 2 ^ 46" "0 \<le> th" "th \<le> 100"
  shows "getProposalStatus (Num (of_int vf)) (Num (of_int va)) (Num (of_int th)) (Num 100) =
           spec_classify (of_int vf) (of_int va) (of_int th) 100"
proof -
  have th46: "th < 2 ^ 46"
    using assms(6) by simp
  have d: "round_double (100 - rat_of_int th) = Num (100 - rat_of_int th)"
    using round_double_of_nonneg [of "100 - th"] assms(5,6) by simp
  have m: "js_minus (Num 100) (Num (rat_of_int th)) = Num (100 - rat_of_int th)"
    by (simp add: js_minus_def d)
  have c: "(1 - rat_of_int th / 100 < rat_of_int va / 100) = (100 - rat_of_int th < rat_of_int va)"
    by (auto simp: field_simps)
  show ?thesis
    by (simp add: getProposalStatus_def spec_classify_def m c js_ge_def js_gt_def
        percentage_of_hundredths [OF assms(1,2)] percentage_of_hundredths [OF assms(3,4)]
        percentage_of_hundredths [OF assms(5) th46])
qed

text \<open>
  Claim C2, at a tie. With 3599 votes against, threshold 6401 and scale 10000, the votes
  against are exactly the complement of the threshold, so by the claim the proposal is in
  progress. The code computes \<open>100 - 64.01\<close> in doubles, which is one unit in the last place
  below the double of \<open>35.99\<close>, and answers Failing.
\<close>

theorem getProposalStatus_rounds_tie:
  "getProposalStatus (Num 0) (Num 3599) (Num 6401) (Num 10000) = ''Failing''
   \<and> spec_classify 0 3599 6401 10000 = ''In Progress''"
proof
  have t: "js_divide (js_times (Num 6401) (Num 100)) (Num 10000) =
             Num (4504303314812273 / 70368744177664)"
    by (simp add: js_times_def js_divide_def round_double_numeral fl_6401')
  have a: "js_divide (js_times (Num 3599) (Num 100)) (Num 10000) =
             Num (5065142205908255 / 140737488355328)"
    by (simp add: js_times_def js_divide_def round_double_numeral fl_3599')
  have f: "js_divide (js_times (Num 0) (Num 100)) (Num 10000) = Num 0"
    by (simp add: js_times_def js_divide_def signed_zero_def)
  have m: "js_minus (Num 100) (Num (4504303314812273 / 70368744177664)) =
             Num (2532571102954127 / 70368744177664)"
    by (simp add: js_minus_def fl_diff')
  show "getProposalStatus (Num 0) (Num 3599) (Num 6401) (Num 10000) = ''Failing''"
    by (simp add: getProposalStatus_def t a f m js_ge_def js_gt_def)
  show "spec_classify 0 3599 6401 10000 = ''In Progress''"
    by (simp add: spec_classify_def)
qed

subsection \<open>Symbol derivation\<close>

lemma isAlnum_upperChar: "isAlnum c \<Longrightarrow> isAlnum (upperChar c)"
  by (auto simp: isAlnum_def upperChar_def Let_def)

lemma upperChar_idem: "upperChar (upperChar c) = upperChar c"
  by (auto simp: upperChar_def Let_def)

lemma toUpperCase_idem: "toUpperCase (toUpperCase s) = toUpperCase s"
  by (simp add: toUpperCase_def upperChar_idem)

lemma filter_isAlnum_toUpperCase:
  "\<forall>c \<in> set s. isAlnum c \<Longrightarrow> filter isAlnum (toUpperCase s) = toUpperCase s"
  by (induction s) (simp_all add: toUpperCase_def isAlnum_upperChar)

lemma symbolPrefix_alnum: "filter isAlnum (symbolPrefix h) = symbolPrefix h"
proof -
  have "\<forall>c \<in> set (take 5 (filter isAlnum h)). isAlnum c"
    by (auto dest: in_set_takeD)
  then show ?thesis
    unfolding symbolPrefix_def by (rule filter_isAlnum_toUpperCase)
qed

lemma symbolPrefix_idem: "symbolPrefix (symbolPrefix h) = symbolPrefix h"
proof -
  have "symbolPrefix (symbolPrefix h) = toUpperCase (take 5 (symbolPrefix h))"
    by (simp add: symbolPrefix_def [of "symbolPrefix h"] symbolPrefix_alnum)
  also have "\<dots> = symbolPrefix h"
    by (simp add: symbolPrefix_def toUpperCase_def upperChar_idem take_map)
  finally show ?thesis .
qed

text \<open>
  The strip and the fold of the code are those of the specification, character by
  character.
\<close>

lemma isAlnum_spec: "isAlnum c = spec_alphanumeric c"
  by (cases c) (simp add: isAlnum_def spec_alphanumeric_def)

lemma upperChar_spec: "upperChar c = spec_upper c"
  by (cases c) (simp add: upperChar_def spec_upper_def char_of_eq_iff)

lemma spec_upper_capital:
  "spec_alphanumeric c \<Longrightarrow> spec_upper c \<in> set ''ABCDEFGHIJKLMNOPQRSTUVWXYZ0123456789''"
  unfolding spec_alphanumeric_def by (auto simp: spec_upper_def)

lemma symbolPrefix_spec:
  "symbolPrefix h = take 5 (map spec_upper (filter spec_alphanumeric h))"
proof -
  have "isAlnum = spec_alphanumeric" "upperChar = spec_upper"
    by (rule ext, rule isAlnum_spec) (rule ext, rule upperChar_spec)
  then show ?thesis
    by (simp add: symbolPrefix_def toUpperCase_def take_map)
qed

lemma length_symbolPrefix:
  "length (symbolPrefix h) = min 5 (length (filter spec_alphanumeric h))"
  by (simp add: symbolPrefix_spec min.commute)

lemma symbolPrefix_capitals:
  "list_all (\<lambda>c. c \<in> set ''ABCDEFGHIJKLMNOPQRSTUVWXYZ0123456789'') (symbolPrefix h)"
proof -
  have "c \<in> set ''ABCDEFGHIJKLMNOPQRSTUVWXYZ0123456789''" if "c \<in> set (symbolPrefix h)" for c
  proof -
    from that have "c \<in> set (map spec_upper (filter spec_alphanumeric h))"
      unfolding symbolPrefix_spec by (rule in_set_takeD)
    then obtain d where "spec_alphanumeric d" "c = spec_upper d"
      by auto
    then show ?thesis
      using spec_upper_capital by simp
  qed
  then show ?thesis
    unfolding list_all_iff by blast
qed

text \<open>
  Claim C8. Both symbols are the hardware name stripped of every character that is not a
  letter or digit, folded to upper case, cut to its first five characters and followed by
  the fixed suffix, where \<open>spec_deriveSymbol\<close> spells these notions out on its own. The
  part before the suffix consists of capitals and digits only. A name with fewer than five
  alphanumeric characters is not padded (the symbol has as many characters as the name has
  alphanumeric ones, plus the three of the suffix), and deriving again from an already
  derived prefix gives the same symbol.
\<close>

theorem symbol_derivation:
  "nftSymbol h = spec_deriveSymbol h ''NFT''
   \<and> tokenSymbol h = spec_deriveSymbol h ''TKN''
   \<and> list_all (\<lambda>c. c \<in> set ''ABCDEFGHIJKLMNOPQRSTUVWXYZ0123456789'') (symbolPrefix h)
   \<and> length (nftSymbol h) = min 5 (length (filter spec_alphanumeric h)) + 3
   \<and> length (tokenSymbol h) = min 5 (length (filter spec_alphanumeric h)) + 3
   \<and> nftSymbol (symbolPrefix h) = nftSymbol h
   \<and> tokenSymbol (symbolPrefix h) = tokenSymbol h
   \<and> nftSymbol ''NVIDIA A100!!'' = ''NVIDINFT''
   \<and> tokenSymbol ''a-1'' = ''A1TKN''
   \<and> nftSymbol ''rtx'' = ''RTXNFT''
   \<and> tokenSymbol ''gpu_4090 Ti'' = ''GPU40TKN''"
proof (intro conjI)
  show "nftSymbol h = spec_deriveSymbol h ''NFT''"
    by (simp add: nftSymbol_def spec_deriveSymbol_def symbolPrefix_spec)
  show "tokenSymbol h = spec_deriveSymbol h ''TKN''"
    by (simp add: tokenSymbol_def spec_deriveSymbol_def symbolPrefix_spec)
  show "list_all (\<lambda>c. c \<in> set ''ABCDEFGHIJKLMNOPQRSTUVWXYZ0123456789'') (symbolPrefix h)"
    by (rule symbolPrefix_capitals)
  show "length (nftSymbol h) = min 5 (length (filter spec_alphanumeric h)) + 3"
    by (simp add: nftSymbol_def length_symbolPrefix)
  show "length (tokenSymbol h) = min 5 (length (filter spec_alphanumeric h)) + 3"
    by (simp add: tokenSymbol_def length_symbolPrefix)
  show "nftSymbol (symbolPrefix h) = nftSymbol h"
    by (simp add: nftSymbol_def symbolPrefix_idem)
  show "tokenSymbol (symbolPrefix h) = tokenSymbol h"
    by (simp add: tokenSymbol_def symbolPrefix_idem)
  show "nftSymbol ''NVIDIA A100!!'' = ''NVIDINFT''"
    by code_simp
  show "tokenSymbol ''a-1'' = ''A1TKN''"
    by code_simp
  show "nftSymbol ''rtx'' = ''RTXNFT''"
    by code_simp
  show "tokenSymbol ''gpu_4090 Ti'' = ''GPU40TKN''"
    by code_simp
qed

subsection \<open>proposeNewRentalPrice\<close>

text \<open>
  A caller without tokens: the function throws after the two reads that establish the
  balance, without estimating gas. What it throws is the \<^verbatim>\<open>BadRequest\<close> of the balance
  check after the \<^verbatim>\<open>catch\<close> block of the function has wrapped it: an internal server
  error, since an HTTP error has no \<^verbatim>\<open>code\<close>.
\<close>

lemma proposeNewRentalPrice_not_holder:
  assumes "daoAddress req \<noteq> []" "userAddress req \<noteq> []" "newRentalPrice req \<noteq> []"
    and "js_gt (parseFloat env (newRentalPrice req)) (Num 0)"
    and "dao_TOKEN_CONTRACT env (daoAddress req) = Inr token"
    and "token_balanceOf env token (userAddress req) = Inr 0"
  shows "proposeNewRentalPrice env req =
     (Inl (InternalServerError
        ''Failed to create proposal transaction: You must be a token holder to propose a new rental price''),
      [Call_TOKEN_CONTRACT (daoAddress req), Call_balanceOf token (userAddress req)])"
proof -
  have "\<not> js_ge (Num 0) (parseFloat env (newRentalPrice req))"
    using assms(4) by (auto simp: js_gt_def js_ge_def split: if_splits)
  then show ?thesis
    using assms by (simp add: proposeNewRentalPrice_def BadRequest_def)
qed

lemma proposeNewRentalPrice_not_holder_no_estimate:
  assumes "daoAddress req \<noteq> []" "userAddress req \<noteq> []" "newRentalPrice req \<noteq> []"
    and "js_gt (parseFloat env (newRentalPrice req)) (Num 0)"
    and "dao_TOKEN_CONTRACT env (daoAddress req) = Inr token"
    and "token_balanceOf env token (userAddress req) = Inr 0"
  shows "\<not> list_ex is_estimateGas (snd (proposeNewRentalPrice env req))"
  by (simp add: proposeNewRentalPrice_not_holder [OF assms])

text \<open>
  Claim C1, on the sample world: Bob holds no tokens and proposes the price \<open>0.5\<close> for DAO
  A. No gas estimate is attempted, as the claim says; but the error has status 500, where
  the claim says a client error.
\<close>

theorem proposeNewRentalPrice_not_holder_status:
  "proposeNewRentalPrice sample_env
     \<lparr>userAddress = ''0xBob'', daoAddress = ''0xDaoA'', newRentalPrice = ''0.5''\<rparr> =
     (Inl (HttpError 500
        ''Failed to create proposal transaction: You must be a token holder to propose a new rental price''),
      [Call_TOKEN_CONTRACT ''0xDaoA'', Call_balanceOf ''0xToken'' ''0xBob''])"
  by (simp add: proposeNewRentalPrice_def sample_env_def sample_parseFloat_def BadRequest_def
      InternalServerError_def js_ge_def)

subsection \<open>completeUnlist\<close>

text \<open>
  Whenever the function returns, it returns two transactions in this order: \<open>unlockNFT()\<close>
  to the DAO with the sender's transaction count \<open>n\<close> as nonce, then
  \<open>removeListing(daoAddress)\<close> to the marketplace with nonce \<open>n + 1\<close>, both with the same
  gas price and chain id.
\<close>

lemma completeUnlist_two_transactions:
  assumes "fst (completeUnlist env req) = Inr res"
  shows "\<exists>n gp cid g1 g2.
           provider_getTransactionCount env (userAddress req) = Inr n
         \<and> transactions res =
             [\<lparr>step_tx =
                 \<lparr>tx_from = userAddress req, tx_to = daoAddress req,
                  tx_data = Enc_unlockNFT, tx_value = None,
                  gasLimit = g1, gasPrice = gp, nonce = n, chainId = cid\<rparr>,
               description = ''Step 1: Unlock NFT by burning all tokens''\<rparr>,
              \<lparr>step_tx =
                 \<lparr>tx_from = userAddress req, tx_to = marketplaceAddress env,
                  tx_data = Enc_removeListing (daoAddress req), tx_value = None,
                  gasLimit = g2, gasPrice = gp, nonce = n + 1, chainId = cid\<rparr>,
               description = ''Step 2: Remove listing from marketplace''\<rparr>]"
  using assms
  by (auto simp: completeUnlist_def fst_io_bind_Inr_iff fst_io_catch_Inr_iff encodeFunctionData_def
      split: if_splits)

text \<open>The two refusals, each wrapped by the \<^verbatim>\<open>catch\<close> block, which wraps every error.\<close>

lemma completeUnlist_not_owner:
  assumes "userAddress req \<noteq> []" "daoAddress req \<noteq> []"
    and "marketplace_owner env = Inr marketOwner"
    and "toLowerCase marketOwner \<noteq> toLowerCase (userAddress req)"
  shows "completeUnlist env req =
     (Inl (InternalServerError
        ''Failed to prepare unlisting transactions: Only the marketplace owner can remove the listing''),
      [Call_owner])"
  using assms by (simp add: completeUnlist_def BadRequest_def)

lemma completeUnlist_not_approved:
  assumes "userAddress req \<noteq> []" "daoAddress req \<noteq> []"
    and "marketplace_owner env = Inr marketOwner"
    and "toLowerCase marketOwner = toLowerCase (userAddress req)"
    and "dao_TOKEN_CONTRACT env (daoAddress req) = Inr token"
    and "token_totalSupply env token = Inr supply"
    and "token_allowance env token (userAddress req) (daoAddress req) = Inr approved"
    and "approved < supply"
  shows "completeUnlist env req =
     (Inl (InternalServerError
        (''Failed to prepare unlisting transactions: You must approve the DAO to transfer all tokens first. Currently approved: ''
           @ toString (uint approved) @ '' of '' @ toString (uint supply) @ '' needed.'')),
      [Call_owner, Call_TOKEN_CONTRACT (daoAddress req), Call_totalSupply token,
       Call_allowance token (userAddress req) (daoAddress req)])"
  using assms by (simp add: completeUnlist_def BadRequest_def)

text \<open>
  Claim C4, on the sample world: Carol, who does not own the marketplace, and the owner
  for DAO B, which has no allowance. Both requests are refused, as the claim says; but the
  errors have status 500, where the specification classes both refusals as client errors.
\<close>

theorem completeUnlist_refusals_status:
  "completeUnlist sample_env \<lparr>userAddress = ''0xCarol'', daoAddress = ''0xDaoA''\<rparr> =
     (Inl (HttpError 500
        ''Failed to prepare unlisting transactions: Only the marketplace owner can remove the listing''),
      [Call_owner])
   \<and> completeUnlist sample_env \<lparr>userAddress = ''0xOwner'', daoAddress = ''0xDaoB''\<rparr> =
     (Inl (HttpError 500
        ''Failed to prepare unlisting transactions: You must approve the DAO to transfer all tokens first. Currently approved: 0 of 1000 needed.''),
      [Call_owner, Call_TOKEN_CONTRACT ''0xDaoB'', Call_totalSupply ''0xToken'',
       Call_allowance ''0xToken'' ''0xOwner'' ''0xDaoB''])"
  by (simp add: completeUnlist_def sample_env_def BadRequest_def InternalServerError_def
      toLowerCase_def lowerChar_def toString_def digits10_small digits10_large)

subsection \<open>becomeTenant\<close>

text \<open>
  A DAO that has a tenant: the message of the \<^verbatim>\<open>BadRequest\<close> thrown by the check contains
  neither of the two phrases the \<^verbatim>\<open>catch\<close> block looks for, so the block wraps it.
\<close>

lemma becomeTenant_rented:
  assumes "userAddress req \<noteq> []" "daoAddress req \<noteq> []"
    and "dao_currentTenant env (daoAddress req) = Inr tenant" "tenant \<noteq> AddressZero"
  shows "becomeTenant env req =
     (Inl (InternalServerError
        ''Failed to prepare tenant transaction: This property already has a tenant. It's not available for rent.''),
      [Call_currentTenant (daoAddress req)])"
  using assms by (simp add: becomeTenant_def BadRequest_def)

text \<open>
  Whenever a transaction is returned, the DAO has no tenant and the transaction's value is
  the decimal text of the rental price read from the DAO.
\<close>

lemma becomeTenant_value:
  assumes "fst (becomeTenant env req) = Inr res"
  shows "\<exists>price. dao_currentTenant env (daoAddress req) = Inr AddressZero
           \<and> dao_rentalPrice env (daoAddress req) = Inr price
           \<and> tx_value (tx res) = Some (toString (uint price))
           \<and> tx_data (tx res) = Enc_becomeTenant"
  using assms
  by (auto simp: becomeTenant_def fst_io_bind_Inr_iff fst_io_catch_Inr_iff encodeFunctionData_def
      split: if_splits)

text \<open>
  Claim C6, on the sample world: DAO B has a tenant and Bob asks to rent it. The function
  throws, as the claim says; but the error has status 500, where the claim says a client
  error.
\<close>

theorem becomeTenant_rented_status:
  "becomeTenant sample_env \<lparr>userAddress = ''0xBob'', daoAddress = ''0xDaoB''\<rparr> =
     (Inl (HttpError 500
        ''Failed to prepare tenant transaction: This property already has a tenant. It's not available for rent.''),
      [Call_currentTenant ''0xDaoB''])"
  by (simp add: becomeTenant_def sample_env_def AddressZero_def BadRequest_def
      InternalServerError_def)

subsection \<open>getUnlistApprovalTx\<close>

text \<open>
  The three outcomes. A caller who does not hold the whole supply gets the \<^verbatim>\<open>BadRequest\<close>
  of the check wrapped by the \<^verbatim>\<open>catch\<close> block, which wraps every error.
\<close>

lemma getUnlistApprovalTx_incomplete:
  assumes "userAddress req \<noteq> []" "daoAddress req \<noteq> []"
    and "dao_TOKEN_CONTRACT env (daoAddress req) = Inr token"
    and "token_totalSupply env token = Inr supply"
    and "token_balanceOf env token (userAddress req) = Inr balance"
    and "balance \<noteq> supply"
  shows "getUnlistApprovalTx env req =
     (Inl (InternalServerError
        (''Failed to prepare approval transaction: You must own all tokens to unlock the NFT. You own ''
           @ toString (uint balance) @ '' of '' @ toString (uint supply) @ '' tokens.'')),
      [Call_TOKEN_CONTRACT (daoAddress req), Call_totalSupply token,
       Call_balanceOf token (userAddress req)])"
  using assms by (simp add: getUnlistApprovalTx_def BadRequest_def)

lemma getUnlistApprovalTx_approved:
  assumes "userAddress req \<noteq> []" "daoAddress req \<noteq> []"
    and "dao_TOKEN_CONTRACT env (daoAddress req) = Inr token"
    and "token_totalSupply env token = Inr supply"
    and "token_balanceOf env token (userAddress req) = Inr supply"
    and "token_allowance env token (userAddress req) (daoAddress req) = Inr approved"
    and "supply \<le> approved"
  shows "getUnlistApprovalTx env req =
     (Inr (NoApprovalNeeded ''Tokens are already approved. Proceed to unlocking the NFT.''),
      [Call_TOKEN_CONTRACT (daoAddress req), Call_totalSupply token,
       Call_balanceOf token (userAddress req),
       Call_allowance token (userAddress req) (daoAddress req)])"
  using assms by (simp add: getUnlistApprovalTx_def)

lemma encode_approve_uint: "encodeFunctionData (Enc_approve a (uint (w :: uint256))) = Inr (Enc_approve a (uint w))"
  using uint_lt2p [of w] by (simp add: encodeFunctionData_def)

lemma getUnlistApprovalTx_needed:
  assumes "userAddress req \<noteq> []" "daoAddress req \<noteq> []"
    and "dao_TOKEN_CONTRACT env (daoAddress req) = Inr token"
    and "token_totalSupply env token = Inr supply"
    and "token_balanceOf env token (userAddress req) = Inr supply"
    and "token_allowance env token (userAddress req) (daoAddress req) = Inr approved"
    and "approved < supply"
    and "provider_estimateGas env
           \<lparr>gas_from = userAddress req, gas_to = token,
            gas_data = Enc_approve (daoAddress req) (uint supply), gas_value = None\<rparr> = Inr gas"
    and "provider_getTransactionCount env (userAddress req) = Inr n"
    and "provider_getGasPrice env = Inr gp"
    and "provider_getNetwork env = Inr cid"
  shows "fst (getUnlistApprovalTx env req) =
     Inr (ApprovalNeeded
            \<lparr>tx_from = userAddress req, tx_to = token,
             tx_data = Enc_approve (daoAddress req) (uint supply), tx_value = None,
             gasLimit = gas, gasPrice = gp, nonce = n, chainId = cid\<rparr>
            (toString (uint supply))
            ''Approve token transfer to DAO contract before unlocking NFT'')"
  using assms by (simp add: getUnlistApprovalTx_def encode_approve_uint)

text \<open>
  Claim C9, on the sample world: Carol holds 100 of the 1000 tokens of DAO A. The function
  throws, as the claim says; but the error has status 500, where the claim says a client
  error.
\<close>

theorem getUnlistApprovalTx_incomplete_status:
  "getUnlistApprovalTx sample_env \<lparr>userAddress = ''0xCarol'', daoAddress = ''0xDaoA''\<rparr> =
     (Inl (HttpError 500
        ''Failed to prepare approval transaction: You must own all tokens to unlock the NFT. You own 100 of 1000 tokens.''),
      [Call_TOKEN_CONTRACT ''0xDaoA'', Call_totalSupply ''0xToken'',
       Call_balanceOf ''0xToken'' ''0xCarol''])"
  by (simp add: getUnlistApprovalTx_def sample_env_def BadRequest_def InternalServerError_def
      toString_def digits10_small digits10_large)

subsection \<open>buyTokens\<close>

lemma js_falsy_of_int [simp]: "js_falsy (Num (of_int n)) \<longleftrightarrow> n = 0"
  by (simp add: js_falsy_def)

lemma js_ge_zero_of_int [simp]: "js_ge (Num 0) (Num (of_int n)) \<longleftrightarrow> n \<le> 0"
  by (simp add: js_ge_def)

lemma BigNumber_from_number_of_int [simp]:
  "BigNumber_from_number (Num (of_int n)) = BigNumber_from n"
  by simp

text \<open>
  Claim C3 as stated fails on requests with all fields present whose amount exceeds what
  DAO A has for sale (3 tokens) but is not an integer below \<open>2^53 - 1\<close>. The payment is
  computed with \<^verbatim>\<open>BigNumber.from(numberOfTokens)\<close> before the supply is read; for 3.5 tokens
  and for \<open>2^53 - 1\<close> tokens that conversion throws, and the \<^verbatim>\<open>catch\<close> block wraps the error as
  an internal server error. For 3.5 tokens the price is the only call awaited.
\<close>

theorem buyTokens_insufficient_counterexample:
  "dao_getAvailableTokensForSale sample_env ''0xDaoA'' = Inr 3
   \<and> thrown_status (buyTokens sample_env
         \<lparr>userAddress = ''0xBob'', daoAddress = ''0xDaoA'', numberOfTokens = Num (7 / 2)\<rparr>)
       = Some 500
   \<and> snd (buyTokens sample_env
         \<lparr>userAddress = ''0xBob'', daoAddress = ''0xDaoA'', numberOfTokens = Num (7 / 2)\<rparr>)
       = [Call_tokenPrice ''0xDaoA'']
   \<and> thrown_status (buyTokens sample_env
         \<lparr>userAddress = ''0xBob'', daoAddress = ''0xDaoA'',
          numberOfTokens = Num 9007199254740991\<rparr>) = Some 500"
  by (simp add: buyTokens_def sample_env_def BigNumber_from_def MAX_SAFE_def
      InternalServerError_def js_falsy_def js_ge_def floor_rat_numeral)

text \<open>
  Claim C3, amended. For a request with user and DAO address present whose amount is an
  integer below \<open>2^53 - 1\<close>, on a DAO whose token price and available supply can be read:
  when the amount exceeds the available supply the function throws a \<^verbatim>\<open>BadRequest\<close> whose
  message has the requested and the available quantity in decimal, after these two reads
  only. When the amount is positive and does not exceed the supply (it may equal it) and
  the gas estimate, gas price, nonce and chain id can be obtained, the function returns the
  transaction that calls \<open>buyTokens(amount)\<close> on the DAO, with the decimal text of the
  integer product of token price and amount as value. No transaction is returned for an
  amount that exceeds the supply, and every transaction returned has that call, that
  receiver and that value.
\<close>

theorem buyTokens_supply_check:
  assumes "userAddress req \<noteq> []" and "daoAddress req \<noteq> []"
    and "numberOfTokens req = Num (of_int amount)" and "amount < MAX_SAFE"
    and "dao_tokenPrice env (daoAddress req) = Inr price"
    and "dao_getAvailableTokensForSale env (daoAddress req) = Inr available"
  shows "(uint available < amount \<longrightarrow>
            buyTokens env req =
              (Inl (BadRequest
                 (''Not enough tokens available for sale. Requested: ''
                    @ toString amount @ '', Available: '' @ toString (uint available))),
               [Call_tokenPrice (daoAddress req),
                Call_getAvailableTokensForSale (daoAddress req)]))
       \<and> (0 < amount \<and> amount \<le> uint available
            \<and> provider_estimateGas env
                 \<lparr>gas_from = userAddress req, gas_to = daoAddress req,
                  gas_data = Enc_buyTokens amount,
                  gas_value = Some (uint price * amount)\<rparr> = Inr gas
            \<and> provider_getGasPrice env = Inr gp
            \<and> provider_getTransactionCount env (userAddress req) = Inr n
            \<and> provider_getNetwork env = Inr cid \<longrightarrow>
            fst (buyTokens env req) =
              Inr \<lparr>tx = \<lparr>tx_from = userAddress req, tx_to = daoAddress req,
                          tx_data = Enc_buyTokens amount,
                          tx_value = Some (toString (uint price * amount)),
                          gasLimit = gas, gasPrice = gp, nonce = n, chainId = cid\<rparr>,
                   message =
                     ''Transaction created to buy '' @ toString amount
                       @ '' tokens for '' @ formatEther env (uint price * amount)
                       @ '' ETH. Please sign to complete purchase.'',
                   totalPayment = formatEther env (uint price * amount)\<rparr>)
       \<and> (\<forall>res. fst (buyTokens env req) = Inr res \<longrightarrow>
            amount \<le> uint available
            \<and> tx_value (tx res) = Some (toString (uint price * amount))
            \<and> tx_data (tx res) = Enc_buyTokens amount
            \<and> tx_to (tx res) = daoAddress req)"
proof (intro conjI impI allI)
  assume less: "uint available < amount"
  have pos: "0 < amount"
    using less uint_ge_0 [of available] by linarith
  have safe: "BigNumber_from amount = Inr amount"
    using pos assms(4) by (simp add: BigNumber_from_def MAX_SAFE_def)
  show "buyTokens env req =
          (Inl (BadRequest
             (''Not enough tokens available for sale. Requested: ''
                @ toString amount @ '', Available: '' @ toString (uint available))),
           [Call_tokenPrice (daoAddress req),
            Call_getAvailableTokensForSale (daoAddress req)])"
    using assms less pos safe
    by (simp add: buyTokens_def BadRequest_def str_includes_prefix)
next
  assume ok: "0 < amount \<and> amount \<le> uint available
            \<and> provider_estimateGas env
                 \<lparr>gas_from = userAddress req, gas_to = daoAddress req,
                  gas_data = Enc_buyTokens amount,
                  gas_value = Some (uint price * amount)\<rparr> = Inr gas
            \<and> provider_getGasPrice env = Inr gp
            \<and> provider_getTransactionCount env (userAddress req) = Inr n
            \<and> provider_getNetwork env = Inr cid"
  have safe: "BigNumber_from amount = Inr amount"
    using ok assms(4) by (simp add: BigNumber_from_def MAX_SAFE_def)
  have enc: "encodeFunctionData (Enc_buyTokens amount) = Inr (Enc_buyTokens amount)"
    using ok assms(4) by (simp add: encodeFunctionData_def MAX_SAFE_def)
  show "fst (buyTokens env req) =
              Inr \<lparr>tx = \<lparr>tx_from = userAddress req, tx_to = daoAddress req,
                          tx_data = Enc_buyTokens amount,
                          tx_value = Some (toString (uint price * amount)),
                          gasLimit = gas, gasPrice = gp, nonce = n, chainId = cid\<rparr>,
                   message =
                     ''Transaction created to buy '' @ toString amount
                       @ '' tokens for '' @ formatEther env (uint price * amount)
                       @ '' ETH. Please sign to complete purchase.'',
                   totalPayment = formatEther env (uint price * amount)\<rparr>"
    using assms ok safe enc by (simp add: buyTokens_def)
next
  fix res
  assume "fst (buyTokens env req) = Inr res"
  then have *: "amount \<le> uint available
        \<and> tx_value (tx res) = Some (toString (uint price * amount))
        \<and> tx_data (tx res) = Enc_buyTokens amount
        \<and> tx_to (tx res) = daoAddress req"
    using assms
    by (auto simp: buyTokens_def fst_io_bind_Inr_iff fst_io_catch_Inr_iff BigNumber_from_def
        encodeFunctionData_def split: if_splits)
  from * show "amount \<le> uint available" by simp
  from * show "tx_value (tx res) = Some (toString (uint price * amount))" by simp
  from * show "tx_data (tx res) = Enc_buyTokens amount" by simp
  from * show "tx_to (tx res) = daoAddress req" by simp
qed

text \<open>
  On the sample world the token price is 2000 and 3 tokens are for sale: 5 tokens are
  refused, 3 tokens give a transaction of value 6000.
\<close>

theorem buyTokens_supply_check_witness:
  "buyTokens sample_env
     \<lparr>userAddress = ''0xBob'', daoAddress = ''0xDaoA'', numberOfTokens = Num 5\<rparr> =
     (Inl (HttpError 400 ''Not enough tokens available for sale. Requested: 5, Available: 3''),
      [Call_tokenPrice ''0xDaoA'', Call_getAvailableTokensForSale ''0xDaoA''])
   \<and> (\<exists>res. fst (buyTokens sample_env
                \<lparr>userAddress = ''0xBob'', daoAddress = ''0xDaoA'', numberOfTokens = Num 3\<rparr>)
              = Inr res
          \<and> tx_value (tx res) = Some ''6000'' \<and> tx_data (tx res) = Enc_buyTokens 3)"
proof -
  have a: "buyTokens sample_env
     \<lparr>userAddress = ''0xBob'', daoAddress = ''0xDaoA'', numberOfTokens = Num 5\<rparr> =
     (Inl (HttpError 400 ''Not enough tokens available for sale. Requested: 5, Available: 3''),
      [Call_tokenPrice ''0xDaoA'', Call_getAvailableTokensForSale ''0xDaoA''])"
    using buyTokens_supply_check
      [of "\<lparr>userAddress = ''0xBob'', daoAddress = ''0xDaoA'', numberOfTokens = Num 5\<rparr>"
        5 sample_env 2000 3]
    by (simp add: sample_env_def MAX_SAFE_def BadRequest_def toString_def digits10_small)
  have b: "fst (buyTokens sample_env
                \<lparr>userAddress = ''0xBob'', daoAddress = ''0xDaoA'', numberOfTokens = Num 3\<rparr>) =
       Inr \<lparr>tx = \<lparr>tx_from = ''0xBob'', tx_to = ''0xDaoA'', tx_data = Enc_buyTokens 3,
                   tx_value = Some ''6000'', gasLimit = 21000, gasPrice = 7, nonce = 5,
                   chainId = 31337\<rparr>,
            message =
              ''Transaction created to buy '' @ toString 3 @ '' tokens for ''
                @ formatEther sample_env 6000 @ '' ETH. Please sign to complete purchase.'',
            totalPayment = formatEther sample_env 6000\<rparr>"
    using buyTokens_supply_check
      [of "\<lparr>userAddress = ''0xBob'', daoAddress = ''0xDaoA'', numberOfTokens = Num 3\<rparr>"
        3 sample_env 2000 3 21000 7 5 31337]
    by (simp add: MAX_SAFE_def toString_def digits10_small digits10_large)
      (simp add: sample_env_def)
  show ?thesis
    using a b by simp
qed

subsection \<open>voteOnProposal\<close>

text \<open>
  For a token holder and an active proposal, the simulated vote is the fourth awaited
  call, before any call of the assembly.
\<close>

lemma voteOnProposal_probe:
  assumes "daoAddress req \<noteq> []" "userAddress req \<noteq> []" "inFavor req = Some choice"
    and "dao_TOKEN_CONTRACT env (daoAddress req) = Inr token"
    and "token_balanceOf env token (userAddress req) = Inr balance" "0 < balance"
    and "dao_currentProposal env (daoAddress req) = Inr p" "isActive p"
  shows "\<exists>rest. snd (voteOnProposal env req) =
           [Call_TOKEN_CONTRACT (daoAddress req), Call_balanceOf token (userAddress req),
            Call_currentProposal (daoAddress req),
            Call_callStatic_vote (daoAddress req) choice (userAddress req)] @ rest"
proof -
  have nz: "balance \<noteq> 0" using assms(6) by auto
  show ?thesis
    using assms nz
    by (cases "dao_callStatic_vote env (daoAddress req) choice (userAddress req)")
      (simp_all add: voteOnProposal_def snd_io_catch snd_io_bind)
qed

text \<open>
  When the simulated vote fails with a message that contains \<open>Already voted\<close>, the
  \<^verbatim>\<open>BadRequest\<close> thrown for it inside the outer \<^verbatim>\<open>try\<close> block is wrapped by the outer
  \<^verbatim>\<open>catch\<close> block.
\<close>

lemma voteOnProposal_already_voted:
  assumes "daoAddress req \<noteq> []" "userAddress req \<noteq> []" "inFavor req = Some choice"
    and "dao_TOKEN_CONTRACT env (daoAddress req) = Inr token"
    and "token_balanceOf env token (userAddress req) = Inr balance" "0 < balance"
    and "dao_currentProposal env (daoAddress req) = Inr p" "isActive p"
    and "dao_callStatic_vote env (daoAddress req) choice (userAddress req) = Inl e"
    and "str_includes (error_message e) ''Already voted''"
  shows "voteOnProposal env req =
     (Inl (InternalServerError
        ''Failed to create vote transaction: You have already voted on this proposal''),
      [Call_TOKEN_CONTRACT (daoAddress req), Call_balanceOf token (userAddress req),
       Call_currentProposal (daoAddress req),
       Call_callStatic_vote (daoAddress req) choice (userAddress req)])"
proof -
  have nz: "balance \<noteq> 0" using assms(6) by auto
  show ?thesis
    using assms nz by (simp add: voteOnProposal_def BadRequest_def)
qed

text \<open>
  Any other failure of the simulated vote is ignored: the function behaves as in the
  world where the simulated vote succeeds.
\<close>

lemma voteOnProposal_probe_failure_ignored:
  assumes "daoAddress req \<noteq> []" "userAddress req \<noteq> []" "inFavor req = Some choice"
    and "dao_TOKEN_CONTRACT env (daoAddress req) = Inr token"
    and "token_balanceOf env token (userAddress req) = Inr balance" "0 < balance"
    and "dao_currentProposal env (daoAddress req) = Inr p" "isActive p"
    and "dao_callStatic_vote env (daoAddress req) choice (userAddress req) = Inl e"
    and "\<not> str_includes (error_message e) ''Already voted''"
  shows "voteOnProposal env req =
         voteOnProposal (env\<lparr>dao_callStatic_vote := \<lambda>dao v sender. Inr ()\<rparr>) req"
proof -
  have nz: "balance \<noteq> 0" using assms(6) by auto
  show ?thesis
    using assms nz by (simp add: voteOnProposal_def)
qed

text \<open>On the sample world, Dave's simulated vote fails and his transaction is assembled.\<close>

lemma voteOnProposal_probe_failure_sample:
  "\<exists>res. fst (voteOnProposal sample_env
     \<lparr>userAddress = ''0xDave'', daoAddress = ''0xDaoC'', inFavor = Some False\<rparr>) = Inr res
    \<and> tx_data (tx res) = Enc_vote False \<and> votingWeight res = ''10%''"
  by (simp add: voteOnProposal_def sample_env_def sample_proposal_def BadRequest_def
      InternalServerError_def BigNumber_div_def encodeFunctionData_def js_divide_def
      js_times_def to_number_def round_double_numeral
      toString_def digits10_small digits10_large)

text \<open>
  Claim C5, on the sample world: Carol holds tokens, DAO C has an active proposal, and
  her simulated vote reverts with \<open>Already voted\<close>. The simulated vote is made before the
  assembly and the function throws, as the claim says; but the error has status 500, where
  the claim says a client error.
\<close>

theorem voteOnProposal_already_voted_status:
  "voteOnProposal sample_env
     \<lparr>userAddress = ''0xCarol'', daoAddress = ''0xDaoC'', inFavor = Some True\<rparr> =
     (Inl (HttpError 500
        ''Failed to create vote transaction: You have already voted on this proposal''),
      [Call_TOKEN_CONTRACT ''0xDaoC'', Call_balanceOf ''0xToken'' ''0xCarol'',
       Call_currentProposal ''0xDaoC'', Call_callStatic_vote ''0xDaoC'' True ''0xCarol''])"
  by (simp add: voteOnProposal_def sample_env_def sample_proposal_def BadRequest_def
      InternalServerError_def)

subsection \<open>getListing\<close>

lemma resolveListing_result:
  "\<exists>r. fst (resolveListing env dao) = Inr r
     \<and> (r = None \<longleftrightarrow> \<not> resolves env dao)
     \<and> (\<forall>l. r = Some l \<longrightarrow> listing_daoAddress l = dao)"
  by (auto simp: resolveListing_def resolves_def fst_io_catch_Inr_iff fst_io_bind_Inr_iff
      io_catch_def io_bind_def io_all3_def
      split: sum.splits)

lemma resolveListing_getListings [simp]:
  "resolveListing (env\<lparr>marketplace_getListings := r\<rparr>) = resolveListing env"
  by (rule ext) (simp add: resolveListing_def)

lemma resolves_getListings [simp]:
  "resolves (env\<lparr>marketplace_getListings := r\<rparr>) = resolves env"
  by (rule ext) (simp add: resolves_def split: sum.splits)

lemma resolved_None: "resolved env dao = None \<longleftrightarrow> \<not> resolves env dao"
  using resolveListing_result [of env dao] by (auto simp: resolved_def)

lemma resolved_Some: "resolved env dao = Some l \<Longrightarrow> listing_daoAddress l = dao"
  using resolveListing_result [of env dao] by (auto simp: resolved_def)

lemma dropNulls_addresses:
  "map listing_daoAddress (dropNulls (map (resolved env) daos)) = filter (resolves env) daos"
proof (induction daos)
  case Nil
  show ?case by simp
next
  case (Cons d ds)
  show ?case
  proof (cases "resolved env d")
    case None
    then show ?thesis using Cons.IH resolved_None [of env d] by simp
  next
    case (Some l)
    then show ?thesis
      using Cons.IH resolved_None [of env d] resolved_Some [of env d l] by simp
  qed
qed

lemma dropNulls_filter_map:
  "dropNulls (map g xs) = map (\<lambda>x. the (g x)) (filter (\<lambda>x. g x \<noteq> None) xs)"
proof (induction xs)
  case Nil
  show ?case by simp
next
  case (Cons x xs)
  then show ?case by (cases "g x") simp_all
qed

lemma mset_dropNulls_perm:
  assumes "mset xs = mset ys"
  shows "mset (dropNulls (map g xs)) = mset (dropNulls (map g ys))"
proof -
  have "mset (dropNulls (map g zs)) =
          image_mset (\<lambda>x. the (g x)) (filter_mset (\<lambda>x. g x \<noteq> None) (mset zs))" for zs
    by (simp add: dropNulls_filter_map)
  then show ?thesis using assms by simp
qed

lemma getListing_value:
  assumes "marketplace_getListings env = Inr daos"
  shows "fst (getListing env) =
     Inr (Sorting_Algorithms.sort (key listing_daoAddress (localeCompare env))
            (dropNulls (map (resolved env) daos)))"
proof -
  have "fst (io_map (resolveListing env) daos) = Inr (map (resolved env) daos)"
    unfolding resolved_def
    by (rule io_map_total) (use resolveListing_result in blast)
  then show ?thesis
    using assms by (simp add: getListing_def io_bind_def)
qed

text \<open>
  Claim C7 as stated fails for malformed metadata: the code does not look at what it has
  fetched. In the world below the metadata of DAO A is an HTML page and that of DAO B is an
  empty object, and all three DAOs are listed.
\<close>

theorem getListing_keeps_malformed_metadata:
  "axios_get sample_env_malformed ''https://meta.example/nft-of-0xDaoA'' = Inr (Body ''<html>'')
   \<and> axios_get sample_env_malformed ''https://meta.example/nft-of-0xDaoB'' = Inr (JsonObject [])
   \<and> map_sum id (map listing_daoAddress) (fst (getListing sample_env_malformed)) =
       Inr [''0xDaoA'', ''0xDaoB'', ''0xDaoC'']"
  by (simp add: getListing_def resolveListing_def sample_env_malformed_def sample_env_def
      io_all3_def)

text \<open>
  Claim C7, amended. Whenever the registry can be enumerated, the aggregation succeeds.
  A DAO is left out exactly when one of its awaited calls throws (a read of the DAO or of
  its NFT contract, or the fetch of the metadata); metadata that has been fetched is not
  examined. So the addresses of the listings returned are, up to order, the enumerated
  addresses that resolve. The result is sorted by \<open>daoAddress\<close> under \<^verbatim>\<open>localeCompare\<close>,
  and enumerating the same addresses in another order gives a sorted result with the same
  listings.
\<close>

theorem getListing_partial_failure:
  assumes "marketplace_getListings env = Inr daos"
  shows "\<exists>ls. fst (getListing env) = Inr ls
     \<and> Sorting_Algorithms.sorted (key listing_daoAddress (localeCompare env)) ls
     \<and> mset (map listing_daoAddress ls) = mset (filter (resolves env) daos)
     \<and> (\<forall>daos'. mset daos' = mset daos \<longrightarrow>
          (\<exists>ls'. fst (getListing (env\<lparr>marketplace_getListings := Inr daos'\<rparr>)) = Inr ls'
             \<and> Sorting_Algorithms.sorted (key listing_daoAddress (localeCompare env)) ls'
             \<and> mset ls' = mset ls))"
proof -
  let ?cmp = "key listing_daoAddress (localeCompare env)"
  let ?ls = "Sorting_Algorithms.sort ?cmp (dropNulls (map (resolved env) daos))"
  have v: "fst (getListing env) = Inr ?ls"
    using assms by (rule getListing_value)
  have s: "Sorting_Algorithms.sorted ?cmp ?ls"
    by simp
  have "mset (map listing_daoAddress ?ls) =
          image_mset listing_daoAddress (mset (dropNulls (map (resolved env) daos)))"
    by simp
  also have "\<dots> = mset (map listing_daoAddress (dropNulls (map (resolved env) daos)))"
    by simp
  also have "\<dots> = mset (filter (resolves env) daos)"
    by (simp only: dropNulls_addresses)
  finally have m: "mset (map listing_daoAddress ?ls) = mset (filter (resolves env) daos)" .
  have p: "\<exists>ls'. fst (getListing (env\<lparr>marketplace_getListings := Inr daos'\<rparr>)) = Inr ls'
             \<and> Sorting_Algorithms.sorted ?cmp ls' \<and> mset ls' = mset ?ls"
    if "mset daos' = mset daos" for daos'
  proof -
    let ?env' = "env\<lparr>marketplace_getListings := Inr daos'\<rparr>"
    have r: "resolved ?env' = resolved env"
      by (rule ext) (simp add: resolved_def)
    have "fst (getListing ?env') =
            Inr (Sorting_Algorithms.sort ?cmp (dropNulls (map (resolved env) daos')))"
      using getListing_value [of ?env' daos'] by (simp add: r)
    moreover have "mset (dropNulls (map (resolved env) daos')) =
                   mset (dropNulls (map (resolved env) daos))"
      using that by (rule mset_dropNulls_perm)
    ultimately show ?thesis by simp
  qed
  from v s m p show ?thesis by blast
qed

text \<open>
  On the sample world three DAOs are enumerated, the metadata of the second cannot be
  fetched, and two listings are returned, in the order of their addresses.
\<close>

theorem getListing_partial_failure_witness:
  "marketplace_getListings sample_env = Inr [''0xDaoC'', ''0xDaoA'', ''0xDaoB'']
   \<and> \<not> resolves sample_env ''0xDaoA''
   \<and> (\<exists>ls. fst (getListing sample_env) = Inr ls
         \<and> map listing_daoAddress ls = [''0xDaoB'', ''0xDaoC''])"
proof -
  have e: "marketplace_getListings sample_env = Inr [''0xDaoC'', ''0xDaoA'', ''0xDaoB'']"
    by (simp add: sample_env_def)
  have n: "\<not> resolves sample_env ''0xDaoA''"
    by (simp add: resolves_def sample_env_def)
  have f: "filter (resolves sample_env) [''0xDaoC'', ''0xDaoA'', ''0xDaoB''] = [''0xDaoC'', ''0xDaoB'']"
    by (simp add: resolves_def sample_env_def)
  obtain ls where ls: "fst (getListing sample_env) = Inr ls"
    "Sorting_Algorithms.sorted (key listing_daoAddress (localeCompare sample_env)) ls"
    "mset (map listing_daoAddress ls) = mset [''0xDaoC'', ''0xDaoB'']"
    using getListing_partial_failure [OF e] unfolding f by blast
  have "map_sum id (map listing_daoAddress) (fst (getListing sample_env)) =
          Inr [''0xDaoB'', ''0xDaoC'']"
    by (simp add: getListing_def resolveListing_def sample_env_def io_all3_def)
  then have a: "map listing_daoAddress ls = [''0xDaoB'', ''0xDaoC'']"
    using ls(1) by simp
  show ?thesis
    by (intro conjI exI [of _ ls]) (rule e n ls(1) a)+
qed

subsection \<open>createListing\<close>

lemma totalTokensOrDefault_falsy:
  "t = None \<or> t = Some 0 \<Longrightarrow> totalTokensOrDefault t = Inr 1000"
  by (auto simp: totalTokensOrDefault_def)

lemma encode_createListing:
  "0 \<le> tt \<Longrightarrow> tt < 2 ^ 256 \<Longrightarrow> 0 \<le> tp \<Longrightarrow> tp < 2 ^ 256 \<Longrightarrow> 0 \<le> rp \<Longrightarrow> rp < 2 ^ 256 \<Longrightarrow>
   encodeFunctionData (Enc_createListing a b c d e tt tp rp) = Inr (Enc_createListing a b c d e tt tp rp)"
  by (simp add: encodeFunctionData_def)

text \<open>
  Claim C10. A request whose \<^verbatim>\<open>totalTokens\<close> is absent or zero is not refused for that: it
  is treated exactly as the same request with 1000 total tokens. When name and user
  address are present, the metadata is pinned, both prices convert to wei amounts that fit
  256 bits, and the gas estimate, gas price, nonce and chain id can be obtained, the
  function returns a transaction to the marketplace whose call is \<open>createListing\<close> with
  1000 total tokens and with the wei amounts of the caller's two prices.
\<close>

theorem createListing_default_totalTokens:
  assumes "hardwareName req \<noteq> []" and "userAddress req \<noteq> []"
    and "totalTokens req = None \<or> totalTokens req = Some 0"
    and "axios_request env
           \<lparr>meta_name = hardwareName req, meta_instanceId = instanceId req,
            meta_image = imageUrl req, meta_cpu = cpu req,
            meta_memory = memory req, meta_location = location req\<rparr> = Inr ipfsHash"
    and "parseEther env (Number_toString env (tokenPrice req)) = Inr tokenPriceWei"
    and "parseEther env (Number_toString env (rentalPrice req)) = Inr rentalPriceWei"
    and "0 \<le> tokenPriceWei" and "tokenPriceWei < 2 ^ 256"
    and "0 \<le> rentalPriceWei" and "rentalPriceWei < 2 ^ 256"
    and "provider_estimateGas env
           \<lparr>gas_from = userAddress req, gas_to = marketplaceAddress env,
            gas_data =
              Enc_createListing
                (hardwareName req @ '' NFT'') (nftSymbol (hardwareName req))
                (hardwareName req @ '' Token'') (tokenSymbol (hardwareName req))
                (''https://gateway.pinata.cloud/ipfs/'' @ ipfsHash)
                1000 tokenPriceWei rentalPriceWei,
            gas_value = None\<rparr> = Inr gas"
    and "provider_getGasPrice env = Inr gp"
    and "provider_getTransactionCount env (userAddress req) = Inr n"
    and "provider_getNetwork env = Inr cid"
  shows "fst (createListing env req) =
           Inr \<lparr>tx =
                  \<lparr>tx_from = userAddress req, tx_to = marketplaceAddress env,
                   tx_data =
                     Enc_createListing
                       (hardwareName req @ '' NFT'') (nftSymbol (hardwareName req))
                       (hardwareName req @ '' Token'') (tokenSymbol (hardwareName req))
                       (''https://gateway.pinata.cloud/ipfs/'' @ ipfsHash)
                       1000 tokenPriceWei rentalPriceWei,
                   tx_value = None, gasLimit = gas, gasPrice = gp, nonce = n, chainId = cid\<rparr>,
                message = ''Transaction created successfully. Please sign and submit.''\<rparr>
         \<and> createListing env req = createListing env (req\<lparr>totalTokens := Some 1000\<rparr>)"
proof
  have tt: "totalTokensOrDefault (totalTokens req) = Inr 1000"
    using assms(3) by (rule totalTokensOrDefault_falsy)
  have enc: "encodeFunctionData
      (Enc_createListing
        (hardwareName req @ '' NFT'') (nftSymbol (hardwareName req))
        (hardwareName req @ '' Token'') (tokenSymbol (hardwareName req))
        (''https://gateway.pinata.cloud/ipfs/'' @ ipfsHash)
        1000 tokenPriceWei rentalPriceWei) =
     Inr (Enc_createListing
        (hardwareName req @ '' NFT'') (nftSymbol (hardwareName req))
        (hardwareName req @ '' Token'') (tokenSymbol (hardwareName req))
        (''https://gateway.pinata.cloud/ipfs/'' @ ipfsHash)
        1000 tokenPriceWei rentalPriceWei)"
    using assms(7-10) by (simp add: encode_createListing)
  show "fst (createListing env req) =
           Inr \<lparr>tx =
                  \<lparr>tx_from = userAddress req, tx_to = marketplaceAddress env,
                   tx_data =
                     Enc_createListing
                       (hardwareName req @ '' NFT'') (nftSymbol (hardwareName req))
                       (hardwareName req @ '' Token'') (tokenSymbol (hardwareName req))
                       (''https://gateway.pinata.cloud/ipfs/'' @ ipfsHash)
                       1000 tokenPriceWei rentalPriceWei,
                   tx_value = None, gasLimit = gas, gasPrice = gp, nonce = n, chainId = cid\<rparr>,
                message = ''Transaction created successfully. Please sign and submit.''\<rparr>"
    using assms(1,2,4-6,11-14) tt enc by (simp add: createListing_def)
  have "totalTokensOrDefault (Some 1000) = Inr 1000"
    by (simp add: totalTokensOrDefault_def BigNumber_from_def MAX_SAFE_def)
  with tt show "createListing env req = createListing env (req\<lparr>totalTokens := Some 1000\<rparr>)"
    by (simp add: createListing_def)
qed

text \<open>On the sample world, for the sample request without \<^verbatim>\<open>totalTokens\<close>.\<close>

theorem createListing_default_totalTokens_witness:
  "\<exists>res. fst (createListing sample_env sample_listing_req) = Inr res
    \<and> tx_data (tx res) =
        Enc_createListing ''NVIDIA A100!! NFT'' ''NVIDINFT'' ''NVIDIA A100!! Token'' ''NVIDITKN''
          ''https://gateway.pinata.cloud/ipfs/QmSampleHash''
          1000 10000000000000000 500000000000000000"
proof -
  have sym: "nftSymbol ''NVIDIA A100!!'' = ''NVIDINFT''" "tokenSymbol ''NVIDIA A100!!'' = ''NVIDITKN''"
    by code_simp+
  have "fst (createListing sample_env sample_listing_req) =
           Inr \<lparr>tx =
                  \<lparr>tx_from = userAddress sample_listing_req, tx_to = marketplaceAddress sample_env,
                   tx_data =
                     Enc_createListing
                       (hardwareName sample_listing_req @ '' NFT'')
                       (nftSymbol (hardwareName sample_listing_req))
                       (hardwareName sample_listing_req @ '' Token'')
                       (tokenSymbol (hardwareName sample_listing_req))
                       (''https://gateway.pinata.cloud/ipfs/'' @ ''QmSampleHash'')
                       1000 10000000000000000 500000000000000000,
                   tx_value = None, gasLimit = 21000, gasPrice = 7, nonce = 5, chainId = 31337\<rparr>,
                message = ''Transaction created successfully. Please sign and submit.''\<rparr>"
    by (rule createListing_default_totalTokens [THEN conjunct1])
      (simp_all add: sample_env_def sample_listing_req_def sample_parseEther_def)
  then show ?thesis
    by (simp add: sample_listing_req_def sym)
qed

end
